theory Spec2Isabelle
  imports Complex_Main "HOL-Library.Monad_Syntax"
begin

section \<open>Values of the client program\<close>

text \<open>
  The library \<^verbatim>\<open>geet.js\<close> runs in a JavaScript client of a hosted image-processing
  platform. A call such as \<^verbatim>\<open>image.select('B4')\<close> computes nothing locally: it builds a
  node of a computation graph that the platform evaluates later. The graph is modelled as
  a term: \<open>Meth r m args\<close> is the node built by \<^verbatim>\<open>r.m(args)\<close> on the object \<open>r\<close>,
  \<open>Call f args\<close> the node built by a constructor or static algorithm \<^verbatim>\<open>ee.f(args)\<close>,
  \<open>Ext n\<close> an object handed in by the caller, and \<open>Param n\<close> the argument of a function
  passed to a remote \<^verbatim>\<open>map\<close>. What a node evaluates to is the platform's business and is
  left uninterpreted.

  The type \<open>js\<close> holds the JavaScript values the library passes around: \<^verbatim>\<open>undefined\<close>,
  booleans, numbers, strings, arrays, object literals, handles of graph nodes, and
  functions given to \<^verbatim>\<open>map\<close>. Numbers are the decimal values of the literals; the
  library does no arithmetic on them beyond \<^verbatim>\<open>numClasses - 1\<close> and loop counters.
  Strings are lists of code points below 256.
\<close>

datatype ee =
    Ext string
  | Param string
  | Call string "js list"
  | Meth ee string "js list"
and js =
    Undef
  | B bool
  | N real
  | S string
  | Arr "js list"
  | Dict "(string \<times> js) list"
  | H ee
  | Fn string ee

text \<open>A handle of a lazily evaluated remote computation (an \<^verbatim>\<open>ee\<close> object).\<close>

fun is_handle :: "js \<Rightarrow> bool" where
  "is_handle (H e) = True"
| "is_handle v = False"

text \<open>\<^verbatim>\<open>typeof x !== 'undefined' ? x : d\<close>\<close>

definition dflt :: "js \<Rightarrow> js \<Rightarrow> js" where
  "dflt x d = (if x \<noteq> Undef then x else d)"

text \<open>
  Property access \<^verbatim>\<open>v[i]\<close> with a numeric index: an element of an array, a character of a
  string, and \<^verbatim>\<open>undefined\<close> on everything else; a handle has no numbered properties.
\<close>

fun js_index :: "js \<Rightarrow> nat \<Rightarrow> js" where
  "js_index (Arr xs) i = (if i < length xs then xs ! i else Undef)"
| "js_index (S s) i = (if i < length s then S [s ! i] else Undef)"
| "js_index v i = Undef"

text \<open>The comma operator \<^verbatim>\<open>(a, b)\<close> evaluates both operands and yields the second.\<close>

definition comma :: "js \<Rightarrow> js \<Rightarrow> js" where
  "comma a b = b"

text \<open>
  A method call on a JavaScript value that need not be an object: on a handle it builds
  the node, on anything else the client raises a TypeError (\<open>None\<close>).
\<close>

fun jmeth :: "js \<Rightarrow> string \<Rightarrow> js list \<Rightarrow> ee option" where
  "jmeth (H e) m args = Some (Meth e m args)"
| "jmeth v m args = None"

text \<open>
  A run of statements that starts with a method call on the value \<open>v\<close>: on a handle
  the statements run and give their result, on anything else that first call raises the
  TypeError.
\<close>

definition on_object :: "js \<Rightarrow> (ee \<Rightarrow> js) \<Rightarrow> js option" where
  "on_object v body = (case v of H e \<Rightarrow> Some (body e) | _ \<Rightarrow> None)"

subsection \<open>Strings\<close>

text \<open>\<^verbatim>\<open>String.prototype.toLowerCase\<close> on code points below 256.\<close>

definition toLower_char :: "char \<Rightarrow> char" where
  "toLower_char c =
     (let n = (of_char c :: nat) in
      if (65 \<le> n \<and> n \<le> 90) \<or> (192 \<le> n \<and> n \<le> 214) \<or> (216 \<le> n \<and> n \<le> 222)
      then char_of (n + 32) else c)"

definition toLowerCase :: "string \<Rightarrow> string" where
  "toLowerCase s = map toLower_char s"

text \<open>
  Band numbers, years and band counts are JavaScript numbers that are integers of
  magnitude at most \<open>2^53\<close>: the integers a JavaScript number holds exactly, one by
  one. \<^verbatim>\<open>Number.prototype.toString\<close> writes such a number as its decimal numeral, with
  a minus sign when it is negative.
\<close>

typedef jsint = "{i :: int. - 9007199254740992 \<le> i \<and> i \<le> 9007199254740992}"
  morphisms int_of Jsint
  by (rule exI [of _ 0]) simp

fun digits :: "nat \<Rightarrow> string" where
  "digits n =
     (if n < 10 then [char_of (48 + n)]
      else digits (n div 10) @ [char_of (48 + n mod 10)])"

definition toString :: "jsint \<Rightarrow> string" where
  "toString n =
     (if int_of n < 0 then CHR ''-'' # digits (nat (- int_of n)) else digits (nat (int_of n)))"

subsection \<open>The remote API, as node builders\<close>

definition select :: "ee \<Rightarrow> string \<Rightarrow> ee" where
  "select img b = Meth img ''select'' [S b]"

definition rename :: "ee \<Rightarrow> string \<Rightarrow> ee" where
  "rename e n = Meth e ''rename'' [S n]"

definition normalizedDifference :: "ee \<Rightarrow> string \<Rightarrow> string \<Rightarrow> ee" where
  "normalizedDifference img b1 b2 = Meth img ''normalizedDifference'' [Arr [S b1, S b2]]"

definition expression :: "ee \<Rightarrow> string \<Rightarrow> (string \<times> js) list \<Rightarrow> ee" where
  "expression img e vars = Meth img ''expression'' [S e, Dict vars]"

definition addBands :: "ee \<Rightarrow> js \<Rightarrow> ee" where
  "addBands img bands = Meth img ''addBands'' [bands]"

definition ee_Number :: "js \<Rightarrow> ee" where
  "ee_Number v = Call ''ee.Number'' [v]"

definition get :: "ee \<Rightarrow> string \<Rightarrow> ee" where
  "get obj k = Meth obj ''get'' [S k]"

section \<open>The state around the library\<close>

text \<open>
  The module owns one variable, the object \<^verbatim>\<open>COLOR\<close>. Around it are the console
  (\<^verbatim>\<open>print\<close>), the layers of the map (\<^verbatim>\<open>Map.addLayer\<close>) and the export tasks
  (\<^verbatim>\<open>Export.image.toDrive\<close>) of the hosting editor.
\<close>

record lib_state =
  COLOR :: "(string \<times> string) list"
  console :: "js list"
  layers :: "(js \<times> js \<times> js) list"
  tasks :: "js list"

definition COLOR_init :: "(string \<times> string) list" where
  "COLOR_init =
     [(''WATER'', ''0066ff''), (''FOREST'', ''009933''), (''PASTURE'', ''99cc00''),
      (''URBAN'', ''ff0000''), (''SHADOW'', ''000000''), (''NULL'', ''808080'')]"

definition init_state :: lib_state where
  "init_state = \<lparr>COLOR = COLOR_init, console = [], layers = [], tasks = []\<rparr>"

text \<open>Reading a property of \<^verbatim>\<open>COLOR\<close>; a name the object lacks reads as \<^verbatim>\<open>undefined\<close>.\<close>

definition property :: "(string \<times> string) list \<Rightarrow> string \<Rightarrow> js" where
  "property tbl k = (case map_of tbl k of Some v \<Rightarrow> S v | None \<Rightarrow> Undef)"

definition print :: "js \<Rightarrow> lib_state \<Rightarrow> lib_state" where
  "print v s = s\<lparr>console := console s @ [v]\<rparr>"

definition Map_addLayer :: "js \<Rightarrow> js \<Rightarrow> js \<Rightarrow> lib_state \<Rightarrow> lib_state" where
  "Map_addLayer img vis title s = s\<lparr>layers := layers s @ [(img, vis, title)]\<rparr>"

definition Export_image_toDrive :: "js \<Rightarrow> lib_state \<Rightarrow> lib_state" where
  "Export_image_toDrive params s = s\<lparr>tasks := tasks s @ [params]\<rparr>"

text \<open>The error log of the library: four lines on the console.\<close>

definition error :: "string \<Rightarrow> string \<Rightarrow> lib_state \<Rightarrow> lib_state" where
  "error funcName msg s =
     print (S ''----------------------------------------------'')
       (print (S msg)
          (print (S (''GEET Error in function: '' @ funcName))
             (print (S ''------------------  GEET  --------------------'') s)))"

section \<open>The colour table\<close>

definition color_error :: string where
  "color_error = ''Error: Valid options are water, forest, pasture, urban, shadow or null! Remember to pass the argument as a string.''"

definition color :: "(string \<times> string) list \<Rightarrow> string \<Rightarrow> js" where
  "color tbl color_arg =
     (let c = toLowerCase color_arg in
      if c = ''water'' then property tbl ''WATER''
      else if c = ''forest'' then property tbl ''FOREST''
      else if c = ''pasture'' then property tbl ''PASTURE''
      else if c = ''urban'' then property tbl ''URBAN''
      else if c = ''shadow'' then property tbl ''SHADOW''
      else if c = ''null'' then property tbl ''NULL''
      else S color_error)"

section \<open>Classification\<close>

text \<open>
  Parameters the library calls methods on (\<^verbatim>\<open>image\<close>, \<^verbatim>\<open>img1\<close>, \<^verbatim>\<open>band\<close>) are handles, of
  type \<open>ee\<close>, except in \<^verbatim>\<open>sentinel2Indices\<close> and \<^verbatim>\<open>cloudMask\<close>, which test the image
  against \<^verbatim>\<open>undefined\<close> themselves. Parameters the library only passes on, or only tests
  against \<^verbatim>\<open>undefined\<close>, are arbitrary values of type \<open>js\<close>; an omitted argument is
  \<open>Undef\<close>. A function that
  prints, adds a layer or starts an export takes the state and returns it updated; a
  function that falls off its end returns \<open>Undef\<close>.
\<close>

definition svm :: "ee \<Rightarrow> js \<Rightarrow> js \<Rightarrow> js \<Rightarrow> js \<Rightarrow> ee" where
  "svm img trainingData fieldName kernelType scale =
     (let kernelType = dflt kernelType (S ''RBF'');
          scale = dflt scale (N 30);
          training = Meth img ''sampleRegions''
            [Dict [(''collection'', trainingData), (''properties'', Arr [fieldName]),
                   (''scale'', scale)]];
          classifier = Call ''ee.Classifier.svm''
            [Dict [(''kernelType'', kernelType), (''cost'', N 10)]];
          trained = Meth classifier ''train'' [H training, fieldName];
          classified = Meth img ''classify'' [H trained]
      in classified)"

definition cart :: "ee \<Rightarrow> js \<Rightarrow> js \<Rightarrow> js \<Rightarrow> ee" where
  "cart img trainingData fieldName scale =
     (let scale = dflt scale (N 30);
          training = Meth img ''sampleRegions''
            [Dict [(''collection'', trainingData), (''properties'', Arr [fieldName]),
                   (''scale'', scale)]];
          classifier = Meth (Call ''ee.Classifier.cart'' []) ''train''
            [Dict [(''features'', H training), (''classProperty'', fieldName)]];
          classified = Meth img ''classify'' [H classifier]
      in classified)"

definition rf :: "ee \<Rightarrow> js \<Rightarrow> js \<Rightarrow> js \<Rightarrow> ee" where
  "rf img trainingData fieldName numOfTrees =
     (let numOfTrees = dflt numOfTrees (N 10);
          training = Meth img ''sampleRegions''
            [Dict [(''collection'', trainingData), (''properties'', Arr [fieldName]),
                   (''scale'', N 30)]];
          classifier = Meth (Call ''ee.Classifier.randomForest'' [numOfTrees]) ''train''
            [Dict [(''features'', H training), (''classProperty'', fieldName)]];
          classified = Meth img ''classify'' [H classifier]
      in classified)"

definition kmeans :: "ee \<Rightarrow> js \<Rightarrow> js \<Rightarrow> js \<Rightarrow> js \<Rightarrow> lib_state \<Rightarrow> js \<times> lib_state" where
  "kmeans img roi numClusters scale numPixels s =
     (let s = (if roi = Undef
               then print (S ''Error: You need to define and pass a roi as argument to collect the samples for the classfication process.'') s
               else s);
          numClusters = dflt numClusters (N 15);
          scale = dflt scale (N 30);
          numPixels = dflt numPixels (N 5000);
          training = Meth img ''sample''
            [Dict [(''region'', roi), (''scale'', scale), (''numPixels'', numPixels)]];
          clusterer = Meth (Call ''ee.Clusterer.wekaKMeans'' [numClusters]) ''train'' [H training];
          result = Meth img ''cluster'' [H clusterer];
          s = Map_addLayer (H (Meth (Call ''ee.Image'' []) ''paint'' [roi, N 0, N 2]))
                (Dict []) (S ''roi_kmeans'') s;
          s = Map_addLayer (H (Meth result ''randomVisualizer'' [])) (Dict []) (S ''clusters'') s
      in (H result, s))"

section \<open>Change detection\<close>

definition simpleNDVIChangeDetection ::
  "ee \<Rightarrow> ee \<Rightarrow> string \<Rightarrow> js \<Rightarrow> lib_state \<Rightarrow> js \<times> lib_state" where
  "simpleNDVIChangeDetection img1 img2 sensor threshold s =
     (let bands =
        (if sensor = ''L8'' then
           Some (rename (normalizedDifference img1 ''B5'' ''B4'') ''NDVI'',
                 rename (normalizedDifference img2 ''B5'' ''B4'') ''NDVI'')
         else if sensor = ''L5'' \<or> sensor = ''L7'' then
           Some (rename (normalizedDifference img1 ''B4'' ''B3'') ''NDVI'',
                 rename (normalizedDifference img2 ''B4'' ''B3'') ''NDVI'')
         else if sensor = ''S2'' then
           Some (rename (normalizedDifference img1 ''B8'' ''B4'') ''NDVI'',
                 rename (normalizedDifference img2 ''B8'' ''B4'') ''NDVI'')
         else None)
      in case bands of
           None \<Rightarrow> (Undef, print (S ''Error: Wrong sensor. Choose between L5, L7, L8 or S2'') s)
         | Some (i_ndvi_1, i_ndvi_2) \<Rightarrow>
            (let i_ndvi_1_mask = Meth (select i_ndvi_1 ''NDVI'') ''gte'' [threshold];
                 i_ndvi_2_mask = Meth (select i_ndvi_2 ''NDVI'') ''gte'' [threshold];
                 imgSoma = Meth i_ndvi_1_mask ''add'' [H i_ndvi_2_mask];
                 s = Map_addLayer (H imgSoma)
                       (Dict [(''min'', N 0), (''max'', N 2),
                              (''palette'', Arr [property (COLOR s) ''SHADOW'',
                                 property (COLOR s) ''URBAN'', property (COLOR s) ''PASTURE''])])
                       (S ''ndvi_cd'') s
             in (H imgSoma, s)))"

definition simpleNDWIChangeDetection ::
  "ee \<Rightarrow> ee \<Rightarrow> string \<Rightarrow> js \<Rightarrow> lib_state \<Rightarrow> js \<times> lib_state" where
  "simpleNDWIChangeDetection img1 img2 sensor threshold s =
     (let bands =
        (if sensor = ''L8'' then
           Some (rename (normalizedDifference img1 ''B4'' ''B6'') ''NDWI'',
                 rename (normalizedDifference img2 ''B4'' ''B6'') ''NDWI'')
         else if sensor = ''L5'' \<or> sensor = ''L7'' then
           Some (rename (normalizedDifference img1 ''B3'' ''B5'') ''NDWI'',
                 rename (normalizedDifference img2 ''B3'' ''B5'') ''NDWI'')
         else if sensor = ''S2'' then
           Some (rename (normalizedDifference img1 ''B4'' ''B11'') ''NDWI'',
                 rename (normalizedDifference img2 ''B4'' ''B11'') ''NDWI'')
         else None)
      in case bands of
           None \<Rightarrow> (Undef, print (S ''Error: Wrong sensor. Choose between L5, L7, L8 or S2'') s)
         | Some (i_ndwi_1, i_ndwi_2) \<Rightarrow>
            (let i_ndwi_1_mask = Meth (select i_ndwi_1 ''NDWI'') ''gte'' [threshold];
                 i_ndwi_2_mask = Meth (select i_ndwi_2 ''NDWI'') ''gte'' [threshold];
                 imgSoma = Meth i_ndwi_1_mask ''add'' [H i_ndwi_2_mask];
                 s = Map_addLayer (H imgSoma)
                       (Dict [(''min'', N 0), (''max'', N 2),
                              (''palette'', Arr [property (COLOR s) ''SHADOW'',
                                 property (COLOR s) ''URBAN'', property (COLOR s) ''PASTURE''])])
                       (S ''ndwi_cd'') s
             in (H imgSoma, s)))"

definition simpleNDBIChangeDetection ::
  "ee \<Rightarrow> ee \<Rightarrow> string \<Rightarrow> js \<Rightarrow> lib_state \<Rightarrow> js \<times> lib_state" where
  "simpleNDBIChangeDetection img1 img2 sensor threshold s =
     (let bands =
        (if sensor = ''L8'' then
           Some (rename (normalizedDifference img1 ''B6'' ''B5'') ''NDBI'',
                 rename (normalizedDifference img2 ''B6'' ''B5'') ''NDBI'')
         else if sensor = ''L5'' \<or> sensor = ''L7'' then
           Some (rename (normalizedDifference img1 ''B5'' ''B4'') ''NDBI'',
                 rename (normalizedDifference img2 ''B5'' ''B4'') ''NDBI'')
         else if sensor = ''S2'' then
           Some (rename (normalizedDifference img1 ''B11'' ''B8'') ''NDBI'',
                 rename (normalizedDifference img2 ''B11'' ''B8'') ''NDBI'')
         else None)
      in case bands of
           None \<Rightarrow> (Undef, print (S ''Error: Wrong sensor. Choose between L5, L7, L8 or S2'') s)
         | Some (i_ndbi_1, i_ndbi_2) \<Rightarrow>
            (let i_ndbi_1_mask = Meth (select i_ndbi_1 ''NDBI'') ''gte'' [threshold];
                 i_ndbi_2_mask = Meth (select i_ndbi_2 ''NDBI'') ''gte'' [threshold];
                 imgSoma = Meth i_ndbi_1_mask ''add'' [H i_ndbi_2_mask];
                 s = Map_addLayer (H imgSoma)
                       (Dict [(''min'', N 0), (''max'', N 2),
                              (''palette'', Arr [property (COLOR s) ''SHADOW'',
                                 property (COLOR s) ''URBAN'', property (COLOR s) ''PASTURE''])])
                       (S ''ndbi_cd'') s
             in (H imgSoma, s)))"

section \<open>Filters\<close>

definition texture :: "ee \<Rightarrow> js \<Rightarrow> ee" where
  "texture img radius =
     Meth img ''reduceNeighborhood''
       [Dict [(''reducer'', H (Call ''ee.Reducer.stdDev'' [])),
              (''kernel'', H (Call ''ee.Kernel.circle'' [radius]))]]"

definition majority :: "ee \<Rightarrow> js \<Rightarrow> ee" where
  "majority img radius =
     Meth img ''reduceNeighborhood''
       [Dict [(''reducer'', H (Call ''ee.Reducer.mode'' [])),
              (''kernel'', H (Call ''ee.Kernel.circle'' [radius]))]]"

section \<open>Plotting\<close>

definition plotRGB :: "js \<Rightarrow> js \<Rightarrow> lib_state \<Rightarrow> js \<times> lib_state" where
  "plotRGB img title s =
     (let title = dflt title (S ''image_RGB'');
          vizParams = Dict [(''bands'', S ''B4,B3,B2''), (''min'', N 5000), (''max'', N 30000),
                            (''gamma'', N 1.6)]
      in (Undef, Map_addLayer img vizParams title s))"

definition plotNDVI :: "js \<Rightarrow> js \<Rightarrow> lib_state \<Rightarrow> js \<times> lib_state" where
  "plotNDVI img title s =
     (Undef, Map_addLayer img
        (Dict [(''min'', N (- 1)), (''max'', N 1), (''palette'', Arr [S ''FF0000'', S ''00FF00''])])
        title s)"

definition plotNDWI :: "js \<Rightarrow> js \<Rightarrow> lib_state \<Rightarrow> js \<times> lib_state" where
  "plotNDWI img title s =
     (Undef, Map_addLayer img
        (Dict [(''min'', N (- 1)), (''max'', N 1), (''palette'', Arr [S ''00FFFF'', S ''0000FF''])])
        title s)"

text \<open>
  \<^verbatim>\<open>switch (numClasses)\<close> compares with \<^verbatim>\<open>===\<close>, so only the numbers 2 to 5 select a
  palette. The first palette reads \<^verbatim>\<open>COLOR.NULO\<close>, as the source does.
\<close>

definition plotClass :: "js \<Rightarrow> js \<Rightarrow> js \<Rightarrow> lib_state \<Rightarrow> js \<times> lib_state" where
  "plotClass img numClasses title s =
     (let title = dflt title (S ''class_final'');
          C = COLOR s;
          wrong = print (S ''Error: Wrong number of classes. plotClass supports a number of classes from 2 to 5 only.'') s
      in case numClasses of
           N n \<Rightarrow>
             (if n = 2 then
                (Undef, Map_addLayer img
                   (Dict [(''min'', N 0), (''max'', N (n - 1)),
                          (''palette'', Arr [property C ''SHADOW'', property C ''NULO''])]) title s)
              else if n = 3 then
                (Undef, Map_addLayer img
                   (Dict [(''min'', N 0), (''max'', N (n - 1)),
                          (''palette'', Arr [property C ''URBAN'', property C ''FOREST'',
                                             property C ''WATER''])]) title s)
              else if n = 4 then
                (Undef, Map_addLayer img
                   (Dict [(''min'', N 0), (''max'', N (n - 1)),
                          (''palette'', Arr [property C ''URBAN'', property C ''FOREST'',
                                             property C ''PASTURE'', property C ''WATER''])]) title s)
              else if n = 5 then
                (Undef, Map_addLayer img
                   (Dict [(''min'', N 0), (''max'', N (n - 1)),
                          (''palette'', Arr [property C ''URBAN'', property C ''FOREST'',
                                             property C ''PASTURE'', property C ''WATER'',
                                             property C ''SHADOW''])]) title s)
              else (Undef, wrong))
         | _ \<Rightarrow> (Undef, wrong))"

section \<open>Spectral indices\<close>

text \<open>
  \<^verbatim>\<open>landsatIndices(image, sensor, index)\<close>. The test \<^verbatim>\<open>index != null\<close> takes a missing
  index (\<open>None\<close>) to the branch that generates all indices; the \<^verbatim>\<open>switch\<close> compares the
  index with \<^verbatim>\<open>===\<close>, has no default case, and each case ends in \<^verbatim>\<open>break\<close> when the
  sensor is not recognised, after which the function falls off its end.
\<close>

definition landsatIndices ::
  "ee \<Rightarrow> string \<Rightarrow> string option \<Rightarrow> lib_state \<Rightarrow> js \<times> lib_state" where
  "landsatIndices img sensor index s =
     (case index of
        Some ix \<Rightarrow>
          (if ix = ''NDVI'' then
            (if sensor = ''L5'' \<or> sensor = ''L7'' then
               (let i_ndvi = rename (normalizedDifference img ''B4'' ''B3'') ''NDVI'';
                    newImage = addBands img (H i_ndvi)
                in (H newImage, s))
             else if sensor = ''L8'' then
               (let i_ndvi = rename (normalizedDifference img ''B5'' ''B4'') ''NDVI'';
                    newImage = addBands img (H i_ndvi)
                in (H newImage, s))
             else if sensor = ''S2'' then
               (let i_ndvi = rename (normalizedDifference img ''B8'' ''B4'') ''NDVI'';
                    newImage = addBands img (H i_ndvi)
                in (H newImage, s))
             else (Undef, print (S ''Error: Wrong sensor!'') s))
          else if ix = ''NDWI'' then
            (if sensor = ''L5'' \<or> sensor = ''L7'' then
               (let i_ndwi = rename (normalizedDifference img ''B3'' ''B5'') ''NDWI'';
                    newImage = addBands img (H i_ndwi)
                in (H newImage, s))
             else if sensor = ''L8'' then
               (let i_ndwi = rename (normalizedDifference img ''B4'' ''B6'') ''NDWI'';
                    newImage = addBands img (H i_ndwi)
                in (H newImage, s))
             else if sensor = ''S2'' then
               (let i_ndwi = rename (normalizedDifference img ''B4'' ''B11'') ''NDWI'';
                    newImage = addBands img (H i_ndwi)
                in (H newImage, s))
             else (Undef, print (S ''Error: Wrong sensor!'') s))
          else if ix = ''NDBI'' then
            (if sensor = ''L5'' \<or> sensor = ''L7'' then
               (let i_ndbi = rename (normalizedDifference img ''B5'' ''B4'') ''NDBI'';
                    newImage = addBands img (H i_ndbi)
                in (H newImage, s))
             else if sensor = ''L8'' then
               (let i_ndbi = rename (normalizedDifference img ''B6'' ''B5'') ''NDBI'';
                    newImage = addBands img (H i_ndbi)
                in (H newImage, s))
             else if sensor = ''S2'' then
               (let i_ndbi = rename (normalizedDifference img ''B11'' ''B8'') ''NDBI'';
                    newImage = addBands img (H i_ndbi)
                in (H newImage, s))
             else (Undef, print (S ''Error: Wrong sensor!'') s))
          else if ix = ''NRVI'' then
            (if sensor = ''L5'' \<or> sensor = ''L7'' then
               (let i_nrvi = rename (expression img ''(RED/NIR - 1) / (RED/NIR + 1)''
                          [(''NIR'', H (select img ''B4'')), (''RED'', H (select img ''B3''))]) ''NRVI'';
                    newImage = addBands img (H i_nrvi)
                in (H newImage, s))
             else if sensor = ''L8'' then
               (let i_nrvi = rename (expression img ''(RED/NIR - 1) / (RED/NIR + 1)''
                          [(''NIR'', H (select img ''B5'')), (''RED'', H (select img ''B4''))]) ''NRVI'';
                    newImage = addBands img (H i_nrvi)
                in (H newImage, s))
             else (Undef, print (S ''Error: Wrong sensor!'') s))
          else if ix = ''EVI'' then
            (if sensor = ''L5'' \<or> sensor = ''L7'' then
               (let i_evi = rename (expression img ''2.5 * ((NIR - RED)) / (NIR + 6 * RED - 7.5 * BLUE + 1)''
                          [(''NIR'', H (select img ''B4'')), (''RED'', H (select img ''B3'')), (''BLUE'', H (select img ''B1''))]) ''EVI'';
                    newImage = addBands img (H i_evi)
                in (H newImage, s))
             else if sensor = ''L8'' then
               (let i_evi = rename (expression img ''2.5 * ((NIR - RED)) / (NIR + 6 * RED - 7.5 * BLUE + 1)''
                          [(''NIR'', H (select img ''B5'')), (''RED'', H (select img ''B4'')), (''BLUE'', H (select img ''B2''))]) ''EVI'';
                    newImage = addBands img (H i_evi)
                in (H newImage, s))
             else if sensor = ''S2'' then
               (let i_evi = rename (expression img ''2.5 * ((NIR - RED)) / (NIR + 6 * RED - 7.5 * BLUE + 1)''
                          [(''NIR'', H (select img ''B8'')), (''RED'', H (select img ''B4'')), (''BLUE'', H (select img ''B2''))]) ''EVI'';
                    newImage = addBands img (H i_evi)
                in (H newImage, s))
             else (Undef, print (S ''Error: Wrong sensor!'') s))
          else if ix = ''SAVI'' then
            (if sensor = ''L5'' \<or> sensor = ''L7'' then
               (let i_savi = rename (expression img ''(1 + L) * (NIR - RED) / (NIR + RED + L)''
                          [(''NIR'', H (select img ''B4'')), (''RED'', H (select img ''B3'')), (''L'', N 0.2)]) ''SAVI'';
                    newImage = addBands img (H i_savi)
                in (H newImage, s))
             else if sensor = ''L8'' then
               (let i_savi = rename (expression img ''(1 + L) * (NIR - RED) / (NIR + RED + L)''
                          [(''NIR'', H (select img ''B5'')), (''RED'', H (select img ''B4'')), (''L'', N 0.2)]) ''SAVI'';
                    newImage = addBands img (H i_savi)
                in (H newImage, s))
             else if sensor = ''S2'' then
               (let i_savi = rename (expression img ''(1 + L) * (NIR - RED) / (NIR + RED + L)''
                          [(''NIR'', H (select img ''B8'')), (''RED'', H (select img ''B4'')), (''L'', N 0.2)]) ''SAVI'';
                    newImage = addBands img (H i_savi)
                in (H newImage, s))
             else (Undef, print (S ''Error: Wrong sensor!'') s))
          else if ix = ''GOSAVI'' then
            (if sensor = ''L5'' \<or> sensor = ''L7'' then
               (let i_gosavi = rename (expression img ''(NIR - GREEN) / (NIR + GREEN + Y)''
                          [(''NIR'', H (select img ''B4'')), (''GREEN'', H (select img ''B2'')), (''Y'', N 0.16)]) ''GOSAVI'';
                    newImage = addBands img (H i_gosavi)
                in (H newImage, s))
             else if sensor = ''L8'' then
               (let i_gosavi = rename (expression img ''(NIR - GREEN) / (NIR + GREEN + Y)''
                          [(''NIR'', H (select img ''B5'')), (''GREEN'', H (select img ''B3'')), (''Y'', N 0.16)]) ''GOSAVI'';
                    newImage = addBands img (H i_gosavi)
                in (H newImage, s))
             else if sensor = ''S2'' then
               (let i_gosavi = rename (expression img ''(NIR - GREEN) / (NIR + GREEN + Y)''
                          [(''NIR'', H (select img ''B8'')), (''GREEN'', H (select img ''B3'')), (''Y'', N 0.16)]) ''GOSAVI'';
                    newImage = addBands img (H i_gosavi)
                in (H newImage, s))
             else (Undef, print (S ''Error: Wrong sensor!'') s))
           else (Undef, s))
      | None \<Rightarrow>
          (if sensor = ''L5'' \<or> sensor = ''L7'' then
             (let i_ndvi = rename (normalizedDifference img ''B4'' ''B3'') ''NDVI'';
                  i_ndwi = rename (normalizedDifference img ''B2'' ''B5'') ''NDWI'';
                  i_ndbi = rename (normalizedDifference img ''B5'' ''B4'') ''NDBI'';
                  i_nrvi = rename (expression img ''(RED/NIR - 1) / (RED/NIR + 1)''
                      [(''NIR'', H (select img ''B4'')), (''RED'', H (select img ''B3''))]) ''NRVI'';
                  i_evi = rename (expression img ''2.5 * ((NIR - RED)) / (NIR + 6 * RED - 7.5 * BLUE + 1)''
                      [(''NIR'', H (select img ''B4'')), (''RED'', H (select img ''B3'')), (''BLUE'', H (select img ''B1''))]) ''EVI'';
                  i_savi = rename (expression img ''(1 + L) * (NIR - RED) / (NIR + RED + L)''
                      [(''NIR'', H (select img ''B4'')), (''RED'', H (select img ''B3'')), (''L'', N 0.2)]) ''SAVI'';
                  i_gosavi = rename (expression img ''(NIR - GREEN) / (NIR + GREEN + Y)''
                      [(''NIR'', H (select img ''B4'')), (''GREEN'', H (select img ''B2'')), (''Y'', N 0.16)]) ''GOSAVI'';
                  newImage = addBands img (Arr [H i_ndvi, H i_ndwi, H i_ndbi, H i_nrvi, H i_evi, H i_savi, H i_gosavi])
              in (H newImage, s))
           else if sensor = ''L8'' then
             (let i_ndvi = rename (normalizedDifference img ''B5'' ''B4'') ''NDVI'';
                  i_ndwi = rename (normalizedDifference img ''B3'' ''B6'') ''NDWI'';
                  i_ndbi = rename (normalizedDifference img ''B6'' ''B5'') ''NDBI'';
                  i_nrvi = rename (expression img ''(RED/NIR - 1) / (RED/NIR + 1)''
                      [(''NIR'', H (select img ''B5'')), (''RED'', H (select img ''B4''))]) ''NRVI'';
                  i_evi = rename (expression img ''2.5 * ((NIR - RED)) / (NIR + 6 * RED - 7.5 * BLUE + 1)''
                      [(''NIR'', H (select img ''B5'')), (''RED'', H (select img ''B4'')), (''BLUE'', H (select img ''B2''))]) ''EVI'';
                  i_savi = rename (expression img ''(1 + L) * (NIR - RED) / (NIR + RED + L)''
                      [(''NIR'', H (select img ''B5'')), (''RED'', H (select img ''B4'')), (''L'', N 0.2)]) ''SAVI'';
                  i_gosavi = rename (expression img ''(NIR - GREEN) / (NIR + GREEN + Y)''
                      [(''NIR'', H (select img ''B5'')), (''GREEN'', H (select img ''B3'')), (''Y'', N 0.16)]) ''GOSAVI'';
                  newImage = addBands img (Arr [H i_ndvi, H i_ndwi, H i_ndbi, H i_nrvi, H i_evi, H i_savi, H i_gosavi])
              in (H newImage, s))
           else if sensor = ''S2'' then
             (let i_ndvi = rename (normalizedDifference img ''B8'' ''B4'') ''NDVI'';
                  i_ndwi = rename (normalizedDifference img ''B3'' ''B11'') ''NDWI'';
                  i_ndbi = rename (normalizedDifference img ''B11'' ''B8'') ''NDBI'';
                  i_evi = rename (expression img ''2.5 * ((NIR - RED)) / (NIR + 6 * RED - 7.5 * BLUE + 1)''
                      [(''NIR'', H (select img ''B8'')), (''RED'', H (select img ''B4'')), (''BLUE'', H (select img ''B2''))]) ''EVI'';
                  i_savi = rename (expression img ''(1 + L) * (NIR - RED) / (NIR + RED + L)''
                      [(''NIR'', H (select img ''B8'')), (''RED'', H (select img ''B4'')), (''L'', N 0.2)]) ''SAVI'';
                  i_gosavi = rename (expression img ''(NIR - GREEN) / (NIR + GREEN + Y)''
                      [(''NIR'', H (select img ''B8'')), (''GREEN'', H (select img ''B3'')), (''Y'', N 0.16)]) ''GOSAVI'';
                  newImage = addBands img (Arr [H i_ndvi, H i_ndwi, H i_ndbi, H i_evi, H i_savi, H i_gosavi])
              in (H newImage, s))
           else (Undef,
                 print (S ''Choose 'L5' to process Landsat 5 images, 'L8' for Landsat 8 and S2 for Sentinel 2'')
                   (print (S ''Error: Wrong sensor input!'') s))))"


text \<open>
  \<^verbatim>\<open>sentinel2Indices(image, index)\<close>. The function tests the image against \<^verbatim>\<open>undefined\<close>
  itself, so the image is any value here: a missing one is reported on the console, and
  the first method call on it in the branch taken raises the TypeError. The \<^verbatim>\<open>switch\<close>
  is on \<^verbatim>\<open>index.toLowerCase()\<close> and has no default case, so an index it does not know
  reaches the end of the function without touching the image.
\<close>

definition sentinel2Indices ::
  "js \<Rightarrow> string option \<Rightarrow> lib_state \<Rightarrow> js option \<times> lib_state" where
  "sentinel2Indices image_arg index s =
     (let s = (if image_arg = Undef
               then print (S ''Error: You need a valid Sentinel 2 input image.'') s else s)
      in
      case index of
        Some ix \<Rightarrow>
          (let c = toLowerCase ix in
           if c = ''ndvi'' then
             (on_object image_arg (\<lambda>img. let i_ndvi = rename (normalizedDifference img ''B8'' ''B4'') ''NDVI'';
                  newImage = addBands img (H i_ndvi)
              in H newImage), s)
           else if c = ''ndwi'' then
             (on_object image_arg (\<lambda>img. let i_ndwi = rename (normalizedDifference img ''B3'' ''B8'') ''NDWI'';
                  newImage = addBands img (H i_ndwi)
              in H newImage), s)
           else if c = ''ndbi'' then
             (on_object image_arg (\<lambda>img. let i_ndbi = rename (normalizedDifference img ''B11'' ''B8'') ''NDBI'';
                  newImage = addBands img (H i_ndbi)
              in H newImage), s)
           else if c = ''mndwi'' then
             (on_object image_arg (\<lambda>img. let i_mndwi = rename (normalizedDifference img ''B3'' ''B12'') ''MNDWI'';
                  newImage = addBands img (H i_mndwi)
              in H newImage), s)
           else if c = ''mndvi'' then
             (on_object image_arg (\<lambda>img. let i_mndvi = rename (normalizedDifference img ''B9'' ''B12'') ''MNDVI'';
                  newImage = addBands img (H i_mndvi)
              in H newImage), s)
           else if c = ''ngrdi'' then
             (on_object image_arg (\<lambda>img. let i_ngrdi = rename (normalizedDifference img ''B3'' ''B5'') ''NGRDI'';
                  newImage = addBands img (H i_ngrdi)
              in H newImage), s)
           else if c = ''ndsi'' then
             (on_object image_arg (\<lambda>img. let i_ndsi = rename (normalizedDifference img ''B11'' ''B12'') ''NDSI'';
                  newImage = addBands img (H i_ndsi)
              in H newImage), s)
           else if c = ''ri'' then
             (on_object image_arg (\<lambda>img. let i_ri = rename (normalizedDifference img ''B5'' ''B3'') ''RI'';
                  newImage = addBands img (H i_ri)
              in H newImage), s)
           else if c = ''ndmi'' then
             (on_object image_arg (\<lambda>img. let i_ndmi = rename (normalizedDifference img ''B9'' ''B12'') ''NDMI'';
                  newImage = addBands img (H i_ndmi)
              in H newImage), s)
           else if c = ''gndvi'' then
             (on_object image_arg (\<lambda>img. let i_gndvi = rename (normalizedDifference img ''B9'' ''B3'') ''GNDVI'';
                  newImage = addBands img (H i_gndvi)
              in H newImage), s)
           else if c = ''bndvi'' then
             (on_object image_arg (\<lambda>img. let i_bndvi = rename (normalizedDifference img ''B9'' ''B1'') ''BNDVI'';
                  newImage = addBands img (H i_bndvi)
              in H newImage), s)
           else if c = ''nbr'' then
             (on_object image_arg (\<lambda>img. let i_nbr = rename (normalizedDifference img ''B9'' ''B12'') ''NBR'';
                  newImage = addBands img (H i_nbr)
              in H newImage), s)
           else if c = ''ppr'' then
             (on_object image_arg (\<lambda>img. let i_ppr = rename (normalizedDifference img ''B9'' ''B12'') ''PPR'';
                  newImage = addBands img (H i_ppr)
              in H newImage), s)
           else if c = ''ndre'' then
             (on_object image_arg (\<lambda>img. let i_ndre = rename (normalizedDifference img ''B9'' ''B5'') ''NDRE'';
                  newImage = addBands img (H i_ndre)
              in H newImage), s)
           else if c = ''lci'' then
             (on_object image_arg (\<lambda>img. let i_lci = rename (normalizedDifference img ''B8'' ''B5'') ''LCI'';
                  newImage = addBands img (H i_lci)
              in H newImage), s)
           else if c = ''savi'' then
             (on_object image_arg (\<lambda>img. let i_savi = rename (expression img ''(1 + L) * (NIR - RED) / (NIR + RED + L)''
                      [(''NIR'', H (select img ''B8'')), (''RED'', H (select img ''B4'')), (''L'', N 0.5)]) ''SAVI'';
                  newImage = addBands img (H i_savi)
              in H newImage), s)
           else if c = ''gosavi'' then
             (on_object image_arg (\<lambda>img. let i_gosavi = rename (expression img ''(NIR - GREEN) / (NIR + GREEN + Y)''
                      [(''NIR'', H (select img ''B8'')), (''GREEN'', H (select img ''B3'')), (''Y'', N 0.16)]) ''GOSAVI'';
                  newImage = addBands img (H i_gosavi)
              in H newImage), s)
           else if c = ''evi'' then
             (on_object image_arg (\<lambda>img. let i_evi = rename (expression img ''2.5 * ((NIR - RED) / (NIR + 6 * RED - 7.5 * BLUE + 1))''
                      [(''NIR'', H (select img ''B8'')), (''RED'', H (select img ''B4'')), (''BLUE'', H (select img ''B2''))]) ''EVI'';
                  newImage = addBands img (H i_evi)
              in H newImage), s)
           else if c = ''evi2'' then
             (on_object image_arg (\<lambda>img. let i_evi2 = rename (expression img ''2.4 * ((NIR - RED) / (NIR + 2.4 * RED + 1))''
                      [(''NIR'', H (select img ''B8'')), (''RED'', H (select img ''B4''))]) ''EVI2'';
                  newImage = addBands img (H i_evi2)
              in H newImage), s)
           else if c = ''gemi'' then
             (on_object image_arg (\<lambda>img. let i_gemi = rename (expression img
                      ''(((NIR_POW - RED_POW) * 2 + (NIR * 1.5) + (RED * 0.5))/(NIR + RED + 0.5)) * (1 - ((((NIR_POW - RED_POW) * 2 + (NIR * 1.5) + (RED * 0.5)) / (NIR + RED + 0.5)) * 0.25)) - ((RED - 0.125) / (1 - RED))''
                      [(''RED'', H (select img ''B4'')), (''NIR'', H (select img ''B8'')),
                       (''RED_POW'', H (Meth (select img ''B4'') ''pow'' [N 2])),
                       (''NIR_POW'', H (Meth (select img ''B8'') ''pow'' [N 2]))]) ''GEMI'';
                  newImage = addBands img (H i_gemi)
              in H newImage), s)
           else if c = ''rvi'' then
             (on_object image_arg (\<lambda>img. let i_rvi = rename (expression img ''RED / NIR''
                      [(''NIR'', H (select img ''B8'')), (''RED'', H (select img ''B4''))]) ''RVI'';
                  newImage = addBands img (H i_rvi)
              in H newImage), s)
           else if c = ''logr'' then
             (on_object image_arg (\<lambda>img. let i_logr_semlog = expression img ''RED / NIR''
                      [(''NIR'', H (select img ''B8'')), (''RED'', H (select img ''B4''))];
                  i_logr_comlog = rename (Meth i_logr_semlog ''log'' []) ''logR'';
                  newImage = addBands img (H i_logr_comlog)
              in H newImage), s)
           else if c = ''tvi'' then
             (on_object image_arg (\<lambda>img. let i_ndvi_temp = normalizedDifference img ''B8'' ''B4'';
                  i_tvi_temp = expression img ''NDVI + 0.5'' [(''NDVI'', H i_ndvi_temp)];
                  i_tvi = rename (Meth i_tvi_temp ''sqrt'' []) ''TVI'';
                  newImage = addBands img (H i_tvi)
              in H newImage), s)
           else (Some Undef, s))
      | None \<Rightarrow>
          (on_object image_arg (\<lambda>img. let i_ndvi = rename (normalizedDifference img ''B8'' ''B4'') ''NDVI'';
               i_ndwi = rename (normalizedDifference img ''B3'' ''B8'') ''NDWI'';
               i_ndbi = rename (normalizedDifference img ''B11'' ''B8'') ''NDBI'';
               i_mndwi = rename (normalizedDifference img ''B3'' ''B12'') ''MNDWI'';
               i_mndvi = rename (normalizedDifference img ''B9'' ''B12'') ''MNDVI'';
               i_ngrdi = rename (normalizedDifference img ''B3'' ''B5'') ''NGRDI'';
               i_ndsi = rename (normalizedDifference img ''B11'' ''B12'') ''NDSI'';
               i_ri = rename (normalizedDifference img ''B5'' ''B3'') ''RI'';
               i_ndmi = rename (normalizedDifference img ''B9'' ''B12'') ''NDMI'';
               i_gndvi = rename (normalizedDifference img ''B9'' ''B3'') ''GNDVI'';
               i_bndvi = rename (normalizedDifference img ''B9'' ''B1'') ''BNDVI'';
               i_nbr = rename (normalizedDifference img ''B9'' ''B12'') ''NBR'';
               i_ppr = rename (normalizedDifference img ''B9'' ''B12'') ''PPR'';
               i_ndre = rename (normalizedDifference img ''B9'' ''B5'') ''NDRE'';
               i_lci = rename (normalizedDifference img ''B8'' ''B5'') ''LCI'';
               i_savi = rename (expression img ''(1 + L) * (NIR - RED) / (NIR + RED + L)''
                   [(''NIR'', H (select img ''B8'')), (''RED'', H (select img ''B4'')), (''L'', N 0.5)]) ''SAVI'';
               i_gosavi = rename (expression img ''(NIR - GREEN) / (NIR + GREEN + Y)''
                   [(''NIR'', H (select img ''B8'')), (''GREEN'', H (select img ''B3'')), (''Y'', N 0.16)]) ''GOSAVI'';
               i_evi = rename (expression img ''2.5 * ((NIR - RED) / (NIR + 6 * RED - 7.5 * BLUE + 1))''
                   [(''NIR'', H (select img ''B8'')), (''RED'', H (select img ''B4'')), (''BLUE'', H (select img ''B2''))]) ''EVI'';
               i_evi2 = rename (expression img ''2.4 * ((NIR - RED) / (NIR + 2.4 * RED + 1))''
                   [(''NIR'', H (select img ''B8'')), (''RED'', H (select img ''B4''))]) ''EVI2'';
               i_rvi = rename (expression img ''RED / NIR''
                   [(''NIR'', H (select img ''B8'')), (''RED'', H (select img ''B4''))]) ''RVI'';
               i_logr_semlog = expression img ''RED / NIR''
                   [(''NIR'', H (select img ''B8'')), (''RED'', H (select img ''B4''))];
               i_logr_comlog = rename (Meth i_logr_semlog ''log'' []) ''logR'';
               i_ndvi_temp = normalizedDifference img ''B8'' ''B4'';
               i_tvi_temp = expression img ''NDVI + 0.5'' [(''NDVI'', H i_ndvi_temp)];
               i_tvi = rename (Meth i_tvi_temp ''sqrt'' []) ''TVI'';
               newImage = addBands img
                 (Arr [H i_ndvi, H i_ndwi, H i_ndbi, H i_mndwi, H i_mndvi, H i_ngrdi,
                  H i_ndsi, H i_ri, H i_ndmi, H i_gndvi, H i_bndvi, H i_nbr,
                  H i_ppr, H i_ndre, H i_lci, H i_savi, H i_gosavi, H i_evi,
                  H i_evi2, H i_rvi, H i_logr_comlog, H i_tvi])
           in H newImage), s))"

section \<open>Loading an example image\<close>

text \<open>
  \<^verbatim>\<open>loadImg(collection, year, roi, cloudFree)\<close>; the year is an integer, \<open>None\<close> when
  omitted and then 2015. The name of the collection is replaced by a catalogue id when the year and
  the name are recognised, so the later test \<^verbatim>\<open>collection === 'TOA'\<close> sees the replaced
  value.
\<close>

definition loadImg :: "js \<Rightarrow> jsint option \<Rightarrow> js \<Rightarrow> js \<Rightarrow> lib_state \<Rightarrow> js \<times> lib_state" where
  "loadImg collection year roi cloudFree s =
     (let visParams = Dict [(''bands'', Arr [S ''B4'', S ''B3'', S ''B2'']), (''max'', N 0.3)];
          collection = dflt collection (S ''TOA'');
          roi = dflt roi (H (Call ''ee.Geometry.Point'' [N (- 43.25), N (- 22.90)]));
          year = (case year of Some y \<Rightarrow> y | None \<Rightarrow> Jsint 2015);
          cloudFree = dflt cloudFree (B True);
          rawVis = Dict [(''bands'', Arr [S ''B4'', S ''B3'', S ''B2'']), (''min'', N 6809),
                         (''max'', N 12199)];
          srVis = Dict [(''bands'', Arr [S ''B4'', S ''B3'', S ''B2'']), (''min'', N 104),
                        (''max'', N 1632)];
          wrongCollection = S ''Error: Wrong collection type. Possible inputs: 'RAW', 'TOA' or 'SR'.'';
          (collection, visParams, s) =
            (if int_of year \<ge> 2013 then
               (if collection = S ''RAW'' then (S ''LANDSAT/LC8_L1T'', rawVis, s)
                else if collection = S ''TOA'' then (S ''LANDSAT/LC8_L1T_TOA_FMASK'', visParams, s)
                else if collection = S ''SR'' then (S ''LANDSAT/LC8_SR'', srVis, s)
                else (collection, visParams, print wrongCollection s))
             else if int_of year < 2013 \<and> int_of year \<ge> 1985 then
               (if collection = S ''RAW'' then (S ''LANDSAT/LT5_L1T'', rawVis, s)
                else if collection = S ''TOA'' then (S ''LANDSAT/LT5_L1T_TOA_FMASK'', visParams, s)
                else if collection = S ''SR'' then (S ''LANDSAT/LT5_SR'', srVis, s)
                else (collection, visParams, print wrongCollection s))
             else (collection, visParams, print (S ''Error: Wrong year parameter'') s));
          start = ''-01-01'';
          finish = ''-12-31'';
          ic = Call ''ee.ImageCollection'' [collection];
          sorted_ic = Meth (Meth (Meth ic ''filterBounds'' [roi]) ''filterDate''
                         [S (toString year @ start), S (toString year @ finish)])
                        ''sort'' [S ''CLOUD_COVER''];
          result_image =
            (if cloudFree = B True \<and> collection = S ''TOA'' then
               (let noclouds = Fn ''image''
                      (let mask = Meth (Meth (Param ''image'') ''select'' [Arr [S ''fmask'']])
                                    ''neq'' [N 4]
                       in Meth (Param ''image'') ''updateMask'' [H mask]);
                    images = Meth (Call ''ee.ImageCollection'' [H sorted_ic]) ''map'' [noclouds]
                in Meth images ''median'' [])
             else Call ''ee.Image'' [H (Meth sorted_ic ''first'' [])]);
          title = ''loadImg'';
          titleName = title @ ''_'' @ toString year;
          s = Map_addLayer (H result_image) visParams (S titleName) s;
          s = print (H result_image) s
      in (H result_image, s))"

section \<open>Top-of-atmosphere corrections\<close>

text \<open>The band number is an integer; \<^verbatim>\<open>'B' + band.toString()\<close> names the band.\<close>

definition toaRadiance :: "ee \<Rightarrow> jsint \<Rightarrow> ee" where
  "toaRadiance img band =
     (let band_to_toa = select img (''B'' @ toString band);
          radiance_multi_band = ee_Number (H (get img (''RADIANCE_MULT_BAND_'' @ toString band)));
          radiance_add_band = ee_Number (H (get img (''RADIANCE_ADD_BAND_'' @ toString band)));
          toa_radiance = rename (expression band_to_toa ''(Ml * band) + Al''
              [(''Ml'', H radiance_multi_band), (''Al'', H radiance_add_band),
               (''band'', H band_to_toa)]) ''TOA_Radiance'';
          img_radiance = addBands img (H toa_radiance)
      in img_radiance)"

definition toaReflectance :: "ee \<Rightarrow> jsint \<Rightarrow> ee" where
  "toaReflectance img band =
     (let band_to_toa = select img (''B'' @ toString band);
          reflectance_multi_band =
            ee_Number (H (get img (''REFLECTANCE_MULT_BAND_'' @ toString band)));
          reflectance_add_band =
            ee_Number (H (get img (''REFLECTANCE_ADD_BAND_'' @ toString band)));
          toa = rename (expression band_to_toa ''(Mp * image) + Ap''
              [(''Mp'', H reflectance_multi_band), (''Ap'', H reflectance_add_band),
               (''image'', H band_to_toa)]) (''B'' @ toString band @ ''_TOA_Reflectance'')
      in toa)"

definition solarAngleElevation :: "ee \<Rightarrow> ee \<Rightarrow> ee" where
  "solarAngleElevation original_img raw_reflectance =
     (let sun_elevation = ee_Number (H (get original_img ''SUN_ELEVATION''));
          sin_sun_elevation = Meth sun_elevation ''sin'' [];
          toa = rename (Meth raw_reflectance ''divide'' [H sin_sun_elevation]) ''TOA_Reflectance_SE''
      in toa)"

definition solarAngleZenith :: "ee \<Rightarrow> ee \<Rightarrow> ee" where
  "solarAngleZenith original_img raw_reflectance =
     (let sun_elevation = ee_Number (H (get original_img ''SUN_ELEVATION''));
          solar_zenith = Meth (ee_Number (N 90)) ''subtract'' [H sun_elevation];
          cos_sun_elevation = Meth solar_zenith ''cos'' [];
          toa = rename (Meth raw_reflectance ''divide'' [H cos_sun_elevation]) ''TOA_Reflectance_SZ''
      in toa)"

definition toaReflectanceL8 :: "ee \<Rightarrow> jsint \<Rightarrow> js \<Rightarrow> lib_state \<Rightarrow> js \<times> lib_state" where
  "toaReflectanceL8 img band solarAngle_arg s =
     (let (solarAngle, s) =
            (if solarAngle_arg \<noteq> Undef then
               (if solarAngle_arg \<noteq> S ''SZ'' \<and> solarAngle_arg \<noteq> S ''SE'' then
                  (S ''SZ'',
                   print (S ''Warning: 'SZ' will be set as default mode.'')
                     (print (S ''Error: 'SE' for the local sun elevation angle or 'SZ' for the Local solar zenith angle.'')
                        (print (S ''Error: You need to choose one of two modes:'') s)))
                else (solarAngle_arg, s))
             else (S ''SZ'', s))
      in if solarAngle = S ''SE'' then
           (let band_to_toa = select img (''B'' @ toString band);
                reflectance_multi_band =
                  ee_Number (H (get img (''REFLECTANCE_MULT_BAND_'' @ toString band)));
                reflectance_add_band =
                  ee_Number (H (get img (''REFLECTANCE_ADD_BAND_'' @ toString band)));
                toa = rename (expression band_to_toa ''(Mp * image) + Ap''
                    [(''Mp'', H reflectance_multi_band), (''Ap'', H reflectance_add_band),
                     (''image'', H band_to_toa)]) (''B'' @ toString band @ ''_TOA_Reflectance_SE'');
                img_se = solarAngleElevation img toa
            in (H img_se, s))
         else if solarAngle = S ''SZ'' then
           (let band_to_toa = select img (''B'' @ toString band);
                reflectance_multi_band =
                  ee_Number (H (get img (''REFLECTANCE_MULT_BAND_'' @ toString band)));
                reflectance_add_band =
                  ee_Number (H (get img (''REFLECTANCE_ADD_BAND_'' @ toString band)));
                toa = rename (expression band_to_toa ''(Mp * image) + Ap''
                    [(''Mp'', H reflectance_multi_band), (''Ap'', H reflectance_add_band),
                     (''image'', H band_to_toa)]) (''B'' @ toString band @ ''_TOA_Reflectance_SZ'');
                img_sz = solarAngleZenith img toa
            in (H img_sz, s))
         else (Undef, s))"

section \<open>Brightness temperature\<close>

definition brightnessTempL5_K :: "ee \<Rightarrow> ee" where
  "brightnessTempL5_K img =
     (let K1 = N 607.76;
          K2 = N 1260.56;
          brightness_temp_semlog = expression img ''K1 / B6 + 1''
            [(''K1'', K1), (''B6'', H (select img ''TOA_Radiance''))];
          brightness_temp_log = Meth brightness_temp_semlog ''log'' [];
          brightness_temp = rename (expression img ''K2 / brightness_temp_log''
            [(''K2'', K2), (''brightness_temp_log'', H brightness_temp_log)])
            ''Brightness_Temperature'';
          img_brightness_temp = addBands img (H brightness_temp)
      in img_brightness_temp)"

definition brightnessTempL5_C :: "ee \<Rightarrow> ee" where
  "brightnessTempL5_C img =
     (let K1 = N 607.76;
          K2 = N 1260.56;
          brightness_temp_semlog = expression img ''K1 / B6 + 1''
            [(''K1'', K1), (''B6'', H (select img ''TOA_Radiance''))];
          brightness_temp_log = Meth brightness_temp_semlog ''log'' [];
          brightness_temp = rename (expression img ''K2 / brightness_temp_log''
            [(''K2'', K2), (''brightness_temp_log'', H brightness_temp_log)])
            ''Brightness_Temperature'';
          brightness_temp_celsius = Meth brightness_temp ''subtract'' [N 273.5];
          img_brightness_temp = addBands img (H brightness_temp_celsius)
      in img_brightness_temp)"

definition brightnessTempL7_K :: "ee \<Rightarrow> ee" where
  "brightnessTempL7_K img =
     (let K1 = N 666.09;
          K2 = N 1282.71;
          brightness_temp_semlog = expression img ''K1 / B6 + 1''
            [(''K1'', K1), (''B6'', H (select img ''TOA_Radiance''))];
          brightness_temp_log = Meth brightness_temp_semlog ''log'' [];
          brightness_temp = rename (expression img ''K2 / brightness_temp_log''
            [(''K2'', K2), (''brightness_temp_log'', H brightness_temp_log)])
            ''Brightness_Temperature'';
          img_brightness_temp = addBands img (H brightness_temp)
      in img_brightness_temp)"

definition brightnessTempL7_C :: "ee \<Rightarrow> ee" where
  "brightnessTempL7_C img =
     (let K1 = N 666.09;
          K2 = N 1282.71;
          brightness_temp_semlog = expression img ''K1 / B6 + 1''
            [(''K1'', K1), (''B6'', H (select img ''TOA_Radiance''))];
          brightness_temp_log = Meth brightness_temp_semlog ''log'' [];
          brightness_temp = rename (expression img ''K2 / brightness_temp_log''
            [(''K2'', K2), (''brightness_temp_log'', H brightness_temp_log)])
            ''Brightness_Temperature'';
          brightness_temp_celsius = Meth brightness_temp ''subtract'' [N 273.5];
          img_brightness_temp = addBands img (H brightness_temp_celsius)
      in img_brightness_temp)"

text \<open>
  The Landsat 8 versions take a second argument, but only look at whether one was passed:
  \<^verbatim>\<open>var single = (arguments[1] !== void 1 ? false : true)\<close>. The branch for both bands
  reads the constants of band 11 into variables it does not use.
\<close>

definition brightnessTempL8_K :: "ee \<Rightarrow> js \<Rightarrow> ee" where
  "brightnessTempL8_K img single_arg =
     (let single = (if single_arg \<noteq> Undef then False else True)
      in if single = True then
           (let K1_10 = ee_Number (H (get img ''K1_CONSTANT_BAND_10''));
                K2_10 = ee_Number (H (get img ''K2_CONSTANT_BAND_10''));
                K1_11 = ee_Number (H (get img ''K1_CONSTANT_BAND_11''));
                K2_11 = ee_Number (H (get img ''K2_CONSTANT_BAND_11''));
                brightness_temp_semlog = expression img ''K1 / B10 + 1''
                  [(''K1'', H K1_10), (''B10'', H (select img ''TOA_Radiance''))];
                brightness_temp_log = Meth brightness_temp_semlog ''log'' [];
                brightness_temp = rename (expression img ''K2 / brightness_temp_log''
                  [(''K2'', H K2_10), (''brightness_temp_log'', H brightness_temp_log)])
                  ''Brightness_Temperature'';
                img_brightness_temp = addBands img (H brightness_temp)
            in img_brightness_temp)
         else
           (let K1_10 = ee_Number (H (get img ''K1_CONSTANT_BAND_10''));
                K2_10 = ee_Number (H (get img ''K2_CONSTANT_BAND_10''));
                brightness_temp_semlog = expression img ''K1 / B10 + 1''
                  [(''K1'', H K1_10), (''B10'', H (select img ''TOA_Radiance''))];
                brightness_temp_log = Meth brightness_temp_semlog ''log'' [];
                brightness_temp = rename (expression img ''K2 / brightness_temp_log''
                  [(''K2'', H K2_10), (''brightness_temp_log'', H brightness_temp_log)])
                  ''Brightness_Temperature'';
                img_brightness_temp = addBands img (H brightness_temp)
            in img_brightness_temp))"

definition brightnessTempL8_C :: "ee \<Rightarrow> js \<Rightarrow> ee" where
  "brightnessTempL8_C img single_arg =
     (let single = (if single_arg \<noteq> Undef then False else True)
      in if single = False then
           (let K1_10 = ee_Number (H (get img ''K1_CONSTANT_BAND_10''));
                K2_10 = ee_Number (H (get img ''K2_CONSTANT_BAND_10''));
                K1_11 = ee_Number (H (get img ''K1_CONSTANT_BAND_11''));
                K2_11 = ee_Number (H (get img ''K2_CONSTANT_BAND_11''));
                brightness_temp_semlog = expression img ''K1 / B10 + 1''
                  [(''K1'', H K1_10), (''B10'', H (select img ''TOA_Radiance''))];
                brightness_temp_log = Meth brightness_temp_semlog ''log'' [];
                brightness_temp = rename (expression img ''K2 / brightness_temp_log''
                  [(''K2'', H K2_10), (''brightness_temp_log'', H brightness_temp_log)])
                  ''Brightness_Temperature'';
                brightness_temp_celsius = Meth brightness_temp ''subtract'' [N 273.5];
                img_brightness_temp = addBands img (H brightness_temp_celsius)
            in img_brightness_temp)
         else
           (let K1_10 = ee_Number (H (get img ''K1_CONSTANT_BAND_10''));
                K2_10 = ee_Number (H (get img ''K2_CONSTANT_BAND_10''));
                brightness_temp_semlog = expression img ''K1 / B10 + 1''
                  [(''K1'', H K1_10), (''B10'', H (select img ''TOA_Radiance''))];
                brightness_temp_log = Meth brightness_temp_semlog ''log'' [];
                brightness_temp = rename (expression img ''K2 / brightness_temp_log''
                  [(''K2'', H K2_10), (''brightness_temp_log'', H brightness_temp_log)])
                  ''Brightness_Temperature'';
                brightness_temp_celsius = Meth brightness_temp ''subtract'' [N 273.5];
                img_brightness_temp = addBands img (H brightness_temp_celsius)
            in img_brightness_temp))"

section \<open>Resampling and loading\<close>

definition resample :: "ee \<Rightarrow> js \<Rightarrow> ee" where
  "resample img scaleNumber =
     (let band = select img ''B2'';
          resampled_image = Meth (Meth img ''resample'' [S ''bilinear'']) ''reproject''
            [Dict [(''crs'', H (Meth (Meth band ''projection'' []) ''crs'' [])),
                   (''scale'', scaleNumber)]]
      in resampled_image)"

definition resampleBand :: "ee \<Rightarrow> js \<Rightarrow> ee" where
  "resampleBand band scaleNumber =
     (let resampled_band = Meth (Meth band ''resample'' [S ''bilinear'']) ''reproject''
            [Dict [(''crs'', H (Meth (Meth band ''projection'' []) ''crs'' [])),
                   (''scale'', scaleNumber)]]
      in resampled_band)"

definition loadS2ById :: "js \<Rightarrow> ee" where
  "loadS2ById ident =
     (let s2 = Call ''ee.ImageCollection'' [S ''COPERNICUS/S2''];
          s2_filtered = Meth s2 ''filterMetadata'' [S ''PRODUCT_ID'', S ''equals'', ident]
      in s2_filtered)"

text \<open>
  The three loaders by path and row take the collection type as a string, lower-cased,
  \<open>None\<close> when omitted. All three read the Landsat 5 catalogue ids, as the source does.
\<close>

text \<open>The filter chain that each case of the three loaders repeats.\<close>

definition byPathRow :: "string \<Rightarrow> js \<Rightarrow> js \<Rightarrow> js \<Rightarrow> js \<Rightarrow> ee" where
  "byPathRow catalogue path row startYear endYear =
     Meth (Meth (Meth (Call ''ee.ImageCollection'' [S catalogue]) ''filterDate''
                   [H (Call ''ee.Date'' [startYear]), H (Call ''ee.Date'' [endYear])])
             ''filter'' [H (Call ''ee.Filter.eq'' [S ''WRS_PATH'', path])])
       ''filter'' [H (Call ''ee.Filter.eq'' [S ''WRS_ROW'', row])]"

definition pathRow_error :: string where
  "pathRow_error =
     ''Choose between '' @ [CHR 0x22] @ ''raw'' @ [CHR 0x22] @ '', '' @ [CHR 0x22] @ ''toa''
       @ [CHR 0x22] @ '' or '' @ [CHR 0x22] @ ''sr'' @ [CHR 0x22] @ '' for the collection type!''"

definition loadL5ByPathRow ::
  "string option \<Rightarrow> js \<Rightarrow> js \<Rightarrow> js \<Rightarrow> js \<Rightarrow> lib_state \<Rightarrow> js \<times> lib_state" where
  "loadL5ByPathRow collection path row startYear endYear s =
     (let collection = (case collection of Some c \<Rightarrow> toLowerCase c | None \<Rightarrow> ''raw'')
      in if collection = ''raw'' then
           (let l5_collection = byPathRow ''LANDSAT/LT5_L1T'' path row startYear endYear
            in (H l5_collection, s))
         else if collection = ''toa'' then
           (let l5_collection = byPathRow ''LANDSAT/LT5_L1T_TOA_FMASK'' path row startYear endYear
            in (H l5_collection, s))
         else if collection = ''sr'' then
           (let l5_collection = byPathRow ''LANDSAT/LT05/C01/T1_SR'' path row startYear endYear
            in (H l5_collection, s))
         else (Undef, print (S pathRow_error) s))"

definition loadL7ByPathRow ::
  "string option \<Rightarrow> js \<Rightarrow> js \<Rightarrow> js \<Rightarrow> js \<Rightarrow> lib_state \<Rightarrow> js \<times> lib_state" where
  "loadL7ByPathRow collection path row startYear endYear s =
     (let collection = (case collection of Some c \<Rightarrow> toLowerCase c | None \<Rightarrow> ''raw'')
      in if collection = ''raw'' then
           (let l7_collection = byPathRow ''LANDSAT/LT5_L1T'' path row startYear endYear
            in (H l7_collection, s))
         else if collection = ''toa'' then
           (let l7_collection = byPathRow ''LANDSAT/LT5_L1T_TOA_FMASK'' path row startYear endYear
            in (H l7_collection, s))
         else if collection = ''sr'' then
           (let l7_collection = byPathRow ''LANDSAT/LT05/C01/T1_SR'' path row startYear endYear
            in (H l7_collection, s))
         else (Undef, print (S pathRow_error) s))"

definition loadL8ByPathRow ::
  "string option \<Rightarrow> js \<Rightarrow> js \<Rightarrow> js \<Rightarrow> js \<Rightarrow> lib_state \<Rightarrow> js \<times> lib_state" where
  "loadL8ByPathRow collection path row startYear endYear s =
     (let collection = (case collection of Some c \<Rightarrow> toLowerCase c | None \<Rightarrow> ''raw'')
      in if collection = ''raw'' then
           (let l8_collection = byPathRow ''LANDSAT/LT5_L1T'' path row startYear endYear
            in (H l8_collection, s))
         else if collection = ''toa'' then
           (let l8_collection = byPathRow ''LANDSAT/LT5_L1T_TOA_FMASK'' path row startYear endYear
            in (H l8_collection, s))
         else if collection = ''sr'' then
           (let l8_collection = byPathRow ''LANDSAT/LT05/C01/T1_SR'' path row startYear endYear
            in (H l8_collection, s))
         else (Undef, print (S pathRow_error) s))"

section \<open>Mosaics\<close>

definition s2Mosaic :: "js \<Rightarrow> js \<Rightarrow> js \<Rightarrow> js \<Rightarrow> lib_state \<Rightarrow> js \<times> lib_state" where
  "s2Mosaic startDate endDate roi showMosaic s =
     (let s2 = Call ''ee.ImageCollection'' [S ''COPERNICUS/S2''];
          showMosaic = dflt showMosaic (B True);
          sorted_s2 = Meth (Meth s2 ''filterDate''
                        [H (Call ''ee.Date'' [startDate]), H (Call ''ee.Date'' [endDate])])
                      ''sort'' [S ''CLOUDY_PIXEL_PERCENTAGE'', B False];
          composite =
            (if roi = Undef then
               Meth (Meth sorted_s2 ''map''
                       [Fn ''image'' (addBands (Param ''image'')
                          (H (Meth (Param ''image'') ''metadata'' [S ''system:time_start''])))])
                 ''mosaic'' []
             else Meth (Meth sorted_s2 ''filterBounds'' [roi]) ''mosaic'' [])
      in if showMosaic = B True then
           (H composite,
            Map_addLayer (H composite)
              (Dict [(''bands'', Arr [S ''B2'', S ''B3'', S ''B4'']), (''min'', N 400),
                     (''max'', N 2811)]) (S ''S2_Mosaic'') s)
         else (H composite, s))"

definition landsat5Mosaic :: "js \<Rightarrow> js \<Rightarrow> js \<Rightarrow> js \<Rightarrow> lib_state \<Rightarrow> js \<times> lib_state" where
  "landsat5Mosaic startDate endDate roi showMosaic s =
     (let l5 = Call ''ee.ImageCollection'' [S ''LANDSAT/LT5_L1T_TOA''];
          showMosaic = dflt showMosaic (B True);
          composite =
            (if roi = Undef then
               Meth (Meth (Meth l5 ''filterDate''
                       [H (Call ''ee.Date'' [startDate]), H (Call ''ee.Date'' [endDate])])
                     ''sort'' [S ''CLOUD_COVER'', B False]) ''mosaic'' []
             else
               Meth (Meth (Meth (Meth l5 ''filterBounds'' [roi]) ''filterDate''
                       [H (Call ''ee.Date'' [startDate]), H (Call ''ee.Date'' [endDate])])
                     ''sort'' [S ''CLOUD_COVER'', B False]) ''mosaic'' [])
      in if showMosaic = B True then
           (H composite,
            Map_addLayer (H composite)
              (Dict [(''bands'', Arr [S ''B1'', S ''B2'', S ''B3'']), (''min'', N 0), (''max'', N 0.5),
                     (''gamma'', Arr [N 0.95, N 1.1, N 1])]) (S ''L5_Mosaic'') s)
         else (H composite, s))"

definition landsat7Mosaic :: "js \<Rightarrow> js \<Rightarrow> js \<Rightarrow> js \<Rightarrow> lib_state \<Rightarrow> js \<times> lib_state" where
  "landsat7Mosaic startDate endDate roi showMosaic s =
     (let l7 = Call ''ee.ImageCollection'' [S ''LANDSAT/LE7_L1T_TOA''];
          showMosaic = dflt showMosaic (B True);
          composite =
            (if roi = Undef then
               Meth (Meth (Meth l7 ''filterDate''
                       [H (Call ''ee.Date'' [startDate]), H (Call ''ee.Date'' [endDate])])
                     ''sort'' [S ''CLOUD_COVER'', B False]) ''mosaic'' []
             else
               Meth (Meth (Meth (Meth l7 ''filterBounds'' [roi]) ''filterDate''
                       [H (Call ''ee.Date'' [startDate]), H (Call ''ee.Date'' [endDate])])
                     ''sort'' [S ''CLOUD_COVER'', B False]) ''mosaic'' [])
      in if showMosaic = B True then
           (H composite,
            Map_addLayer (H composite)
              (Dict [(''bands'', Arr [S ''B1'', S ''B2'', S ''B3'']), (''min'', N 0), (''max'', N 0.5),
                     (''gamma'', Arr [N 0.95, N 1.1, N 1])]) (S ''L5_Mosaic'') s)
         else (H composite, s))"

definition landsat8Mosaic :: "js \<Rightarrow> js \<Rightarrow> js \<Rightarrow> js \<Rightarrow> lib_state \<Rightarrow> js \<times> lib_state" where
  "landsat8Mosaic startDate endDate roi showMosaic s =
     (let l8 = Call ''ee.ImageCollection'' [S ''LANDSAT/LC8_L1T_TOA''];
          showMosaic = dflt showMosaic (B True);
          composite =
            (if roi = Undef then
               Meth (Meth (Meth l8 ''filterDate''
                       [H (Call ''ee.Date'' [startDate]), H (Call ''ee.Date'' [endDate])])
                     ''sort'' [S ''CLOUD_COVER'', B False]) ''mosaic'' []
             else
               Meth (Meth (Meth (Meth l8 ''filterBounds'' [roi]) ''filterDate''
                       [H (Call ''ee.Date'' [startDate]), H (Call ''ee.Date'' [endDate])])
                     ''sort'' [S ''CLOUD_COVER'', B False]) ''mosaic'' [])
      in if showMosaic = B True then
           (H composite,
            Map_addLayer (H composite)
              (Dict [(''bands'', Arr [S ''B2'', S ''B3'', S ''B4'']), (''min'', N 0), (''max'', N 0.5),
                     (''gamma'', Arr [N 0.95, N 1.1, N 1])]) (S ''L5_Mosaic'') s)
         else (H composite, s))"

definition modisNdviMosaic :: "js \<Rightarrow> js \<Rightarrow> js \<Rightarrow> js \<Rightarrow> lib_state \<Rightarrow> js \<times> lib_state" where
  "modisNdviMosaic startDate endDate roi showMosaic s =
     (let showMosaic = dflt showMosaic (B True);
          modis = Meth (Call ''ee.ImageCollection'' [S ''MODIS/MOD13Q1'']) ''filterDate''
                    [H (Call ''ee.Date'' [startDate]), H (Call ''ee.Date'' [endDate])];
          rescale_ndvi = Fn ''img''
            (let rescaled_NDVI = rename (Meth (select (Param ''img'') ''NDVI'') ''multiply'' [N 0.0001])
                                   ''NDVI_rescaled''
             in addBands (Param ''img'') (H rescaled_NDVI));
          goodCollection = Meth modis ''map'' [rescale_ndvi];
          modis_ndvi_mosaic = Meth (select goodCollection ''NDVI_rescaled'') ''mosaic'' []
      in if showMosaic = B True then
           (H modis_ndvi_mosaic, Map_addLayer (H modis_ndvi_mosaic) Undef Undef s)
         else (H modis_ndvi_mosaic, s))"

section \<open>Reductions, indices and surface temperature\<close>

definition max_img :: "ee \<Rightarrow> ee" where
  "max_img img = (let maxValue = Meth img ''reduce'' [H (Call ''ee.Reducer.max'' [])] in maxValue)"

definition min_img :: "ee \<Rightarrow> ee" where
  "min_img img = (let minValue = Meth img ''reduce'' [H (Call ''ee.Reducer.min'' [])] in minValue)"

definition ndviL5 :: "ee \<Rightarrow> ee" where
  "ndviL5 img =
     (let l5_ndvi = rename (normalizedDifference img ''B4'' ''B3'') ''NDVI'';
          image_with_ndvi = addBands img (H l5_ndvi)
      in image_with_ndvi)"

definition ndviL7 :: "ee \<Rightarrow> ee" where
  "ndviL7 img =
     (let l7_ndvi = rename (normalizedDifference img ''B4'' ''B3'') ''NDVI'';
          image_with_ndvi = addBands img (H l7_ndvi)
      in image_with_ndvi)"

definition ndviL8 :: "ee \<Rightarrow> ee" where
  "ndviL8 img =
     (let l8_ndvi = rename (normalizedDifference img ''B5'' ''B4'') ''NDVI'';
          image_with_ndvi = addBands img (H l8_ndvi)
      in image_with_ndvi)"

definition ndviS2 :: "ee \<Rightarrow> ee" where
  "ndviS2 img =
     (let s2_ndvi = rename (normalizedDifference img ''B8'' ''B4'') ''NDVI'';
          image_with_ndvi = addBands img (H s2_ndvi)
      in image_with_ndvi)"

definition propVeg :: "ee \<Rightarrow> ee" where
  "propVeg img =
     (let ndvi = select img ''NDVI'';
          propVeg = rename (expression ndvi
            ''((ndvi - ndvi_min) / (ndvi_max - ndvi_min)) * ((ndvi - ndvi_min) / (ndvi_max - ndvi_min))''
            [(''ndvi_max'', N 0.7), (''ndvi_min'', N 0.05), (''ndvi'', H ndvi)]) ''propVeg'';
          img_with_pv = addBands img (H propVeg)
      in img_with_pv)"

definition landSurfaceEmissivity :: "ee \<Rightarrow> ee" where
  "landSurfaceEmissivity img =
     (let lse = rename (expression img ''(0.004 * pv_img) + 0.986''
            [(''pv_img'', H (select img ''propVeg''))]) ''LSE'';
          img_with_lse = addBands img (H lse)
      in img_with_lse)"

definition landSurfaceTemperature :: "ee \<Rightarrow> ee" where
  "landSurfaceTemperature img =
     (let p = N 14380;
          lse_band = select img ''LSE'';
          lse_log = Meth lse_band ''log'' [];
          lst = rename (expression img ''BT / 1 + B10 * (BT / p) * lse_log''
            [(''p'', p), (''BT'', H (select img ''Brightness_Temperature'')),
             (''B10'', H (select img ''B10'')), (''lse_log'', H lse_log)]) ''LST'';
          image_with_lst = addBands img (H lst)
      in image_with_lst)"

section \<open>Export, cloud mask and principal components\<close>

definition exportImg :: "js \<Rightarrow> js \<Rightarrow> js \<Rightarrow> js \<Rightarrow> lib_state \<Rightarrow> js \<times> lib_state" where
  "exportImg img outFilename scale maxPixels s =
     (let scale = dflt scale (N 30);
          maxPixels = dflt maxPixels (N 10000000000)
      in (Undef,
          Export_image_toDrive
            (Dict [(''image'', img), (''description'', outFilename), (''scale'', scale),
                   (''maxPixels'', maxPixels)]) s))"

text \<open>
  \<^verbatim>\<open>cloudMask\<close> tests its argument against \<^verbatim>\<open>undefined\<close>, so the argument is any value
  here. A missing image is logged, and the call of \<^verbatim>\<open>select\<close> that follows raises the
  TypeError.
\<close>

definition cloudMask :: "js \<Rightarrow> lib_state \<Rightarrow> js option \<times> lib_state" where
  "cloudMask image_arg s =
     (let s = (if image_arg = Undef
               then error ''cloudMask'' ''You need to specify an input image.'' s else s)
      in (on_object image_arg (\<lambda>img.
            let mask = Meth (Meth img ''select'' [Arr [S ''fmask'']]) ''neq'' [N 4]
            in H (Meth img ''updateMask'' [H mask])), s))"

text \<open>
  The loop of \<^verbatim>\<open>pca\<close> that names the components \<^verbatim>\<open>pc1\<close>, \<^verbatim>\<open>pc2\<close>, ... The counter
  stays at or below the band count, so \<open>i + 1\<close> is within \<open>jsint\<close> where it is written.
\<close>

function pcNames_loop :: "int \<Rightarrow> jsint \<Rightarrow> string list \<Rightarrow> string list" where
  "pcNames_loop i nbands pcNames =
     (if i < int_of nbands
      then pcNames_loop (i + 1) nbands (pcNames @ [''pc'' @ toString (Jsint (i + 1))])
      else pcNames)"
  by pat_completeness auto
termination
  by (relation "measure (\<lambda>(i, nbands, pcNames). nat (int_of nbands - i))") auto

definition pca :: "ee \<Rightarrow> jsint option \<Rightarrow> js \<Rightarrow> js \<Rightarrow> js" where
  "pca img nbands scale maxPixels =
     (let scale = dflt scale (N 30);
          nbands = (case nbands of Some n \<Rightarrow> n | None \<Rightarrow> Jsint 12);
          maxPixels = dflt maxPixels (N 1000000000);
          bandNames = Meth img ''bandNames'' [];
          meanDict = Meth img ''reduceRegion''
            [Dict [(''reducer'', H (Call ''ee.Reducer.mean'' [])), (''scale'', scale),
                   (''maxPixels'', maxPixels)]];
          means = Call ''ee.Image.constant'' [H (Meth meanDict ''values'' [H bandNames])];
          centered = Meth img ''subtract'' [H means];
          pcNames = pcNames_loop 0 nbands [];
          centered = Meth centered ''toArray'' [];
          covar = Meth centered ''reduceRegion''
            [Dict [(''reducer'', H (Call ''ee.Reducer.centeredCovariance'' [])), (''scale'', scale),
                   (''maxPixels'', maxPixels)]];
          covarArray = Call ''ee.Array'' [H (get covar ''array'')];
          eigens = Meth covarArray ''eigen'' [];
          lambdas = Meth eigens ''slice'' [N 1, N 0, N 1];
          eivs = Meth eigens ''slice'' [N 1, N 1];
          centered = Meth centered ''toArray'' [N 1];
          pcs = Meth (Meth (Meth (Call ''ee.Image'' [H eivs]) ''matrixMultiply'' [H centered])
                        ''arrayProject'' [Arr [N 0]])
                  ''arrayFlatten'' [Arr [Arr (map S pcNames)]]
      in Arr [H pcs, H lambdas])"

section \<open>Iteratively re-weighted MAD\<close>

text \<open>
  The functions of the test zone are not exported. \<^verbatim>\<open>geneiv\<close> ends in
  \<^verbatim>\<open>return (lambdas,eigenvecs)\<close>, a comma expression. \<^verbatim>\<open>covarw\<close> returns an array of two
  handles. \<^verbatim>\<open>imad1\<close> indexes both results, so the values it goes on to call methods on
  are JavaScript values that need not be objects: those calls go through \<open>jmeth\<close>, and
  \<open>None\<close> is the TypeError of a call on \<^verbatim>\<open>undefined\<close>. The matrices \<^verbatim>\<open>A\<close>, \<^verbatim>\<open>B\<close>, \<^verbatim>\<open>C\<close> and
  the count \<^verbatim>\<open>N\<close> of the source carry the suffix \<open>_mat\<close> or \<open>_len\<close> here.
\<close>

definition chi2cdf :: "ee \<Rightarrow> js \<Rightarrow> ee" where
  "chi2cdf chi2 df =
     Meth (Call ''ee.Image'' [H (Meth chi2 ''divide'' [N 2])]) ''gammainc''
       [H (Meth (ee_Number df) ''divide'' [N 2])]"

definition geneiv :: "js \<Rightarrow> js \<Rightarrow> js" where
  "geneiv C_arg B_arg =
     (let C_mat = Call ''ee.Array'' [C_arg];
          B_mat = Call ''ee.Array'' [B_arg];
          Li = Meth (Call ''ee.Array''
                 [H (get (Meth B_mat ''matrixCholeskyDecomposition'' []) ''L'')]) ''matrixInverse'' [];
          Xa = Meth (Meth (Meth Li ''matrixMultiply'' [H C_mat]) ''matrixMultiply''
                       [H (Meth Li ''matrixTranspose'' [])]) ''eigen'' [];
          lambdas = Meth (Meth Xa ''slice'' [N 1, N 0, N 1]) ''matrixTranspose'' [];
          X = Meth (Meth Xa ''slice'' [N 1, N 1]) ''matrixTranspose'' [];
          eigenvecs = Meth (Meth Li ''matrixTranspose'' []) ''matrixMultiply'' [H X]
      in comma (H lambdas) (H eigenvecs))"

definition covarw :: "ee \<Rightarrow> ee \<Rightarrow> js \<Rightarrow> js" where
  "covarw img weights maxPixels =
     (let maxPixels = dflt maxPixels (N 1000000000);
          geometry = Meth img ''geometry'' [];
          bandNames = Meth img ''bandNames'' [];
          N_len = Meth bandNames ''length'' [];
          scale = Meth (Meth (Meth img ''select'' [N 0]) ''projection'' []) ''nominalScale'' [];
          weightsImage = Meth (Meth img ''multiply'' [H (Call ''ee.Image.constant'' [N 0])])
                           ''add'' [H weights];
          means = Meth (Meth (Meth (addBands img (H weightsImage)) ''reduceRegion''
                     [Dict [(''reducer'', H (Meth (Meth (Call ''ee.Reducer.mean'' []) ''repeat''
                                               [H N_len]) ''splitWeights'' [])),
                            (''scale'', H scale), (''maxPixels'', maxPixels)]])
                   ''toArray'' []) ''project'' [Arr [N 1]];
          centered = Meth (Meth img ''toArray'' []) ''subtract'' [H means];
          B1 = Meth (Meth centered ''bandNames'' []) ''get'' [N 0];
          b1 = Meth (Meth weights ''bandNames'' []) ''get'' [N 0];
          nPixels = ee_Number (H (Meth (Meth centered ''reduceRegion''
                      [Dict [(''reducer'', H (Call ''ee.Reducer.count'' [])), (''scale'', H scale),
                             (''maxPixels'', maxPixels)]]) ''get'' [H B1]));
          sumWeights = ee_Number (H (Meth (Meth weights ''reduceRegion''
                      [Dict [(''reducer'', H (Call ''ee.Reducer.sum'' [])),
                             (''geometry'', H geometry), (''scale'', H scale),
                             (''maxPixels'', maxPixels)]]) ''get'' [H b1]));
          covw = get (Meth (Meth (Meth centered ''multiply'' [H (Meth weights ''sqrt'' [])])
                              ''toArray'' []) ''reduceRegion''
                      [Dict [(''reducer'', H (Call ''ee.Reducer.centeredCovariance'' [])),
                             (''geometry'', H geometry), (''scale'', H scale),
                             (''maxPixels'', maxPixels)]]) ''array'';
          covw = Meth (Meth (Call ''ee.Array'' [H covw]) ''multiply'' [H nPixels])
                   ''divide'' [H sumWeights]
      in Arr [H (Meth centered ''arrayFlatten'' [Arr [H bandNames]]), H covw])"

definition imad1 :: "js \<Rightarrow> js \<Rightarrow> ee option" where
  "imad1 current prev =
     (let img = Call ''ee.Image'' [H (get (Call ''ee.Dictionary'' [prev]) ''image'')];
          chi2 = Call ''ee.Image'' [H (get (Call ''ee.Dictionary'' [prev]) ''chi2'')];
          allrhos = Call ''ee.List'' [H (get (Call ''ee.Dictionary'' [prev]) ''allrhos'')];
          region = Meth img ''geometry'' [];
          nBands = Meth (Meth (Meth img ''bandNames'' []) ''length'' []) ''divide'' [N 2];
          weights = Meth (Meth (chi2cdf chi2 (H nBands)) ''subtract'' [N 1]) ''multiply'' [N (- 1)];
          centeredImage = js_index (covarw img weights Undef) 0;
          covarArray = js_index (covarw img weights Undef) 1
      in do {
        bNames \<leftarrow> jmeth centeredImage ''bandNames'' [];
        let bNames1 = Meth bNames ''slice'' [N 0, H nBands];
        let bNames2 = Meth bNames ''slice'' [H nBands];
        centeredImage1 \<leftarrow> jmeth centeredImage ''select'' [H bNames1];
        centeredImage2 \<leftarrow> jmeth centeredImage ''select'' [H bNames2];
        rows1 \<leftarrow> jmeth covarArray ''slice'' [N 0, N 0, H nBands];
        rows2 \<leftarrow> jmeth covarArray ''slice'' [N 0, H nBands];
        let s11 = Meth rows1 ''slice'' [N 1, N 0, H nBands];
        let s22 = Meth rows2 ''slice'' [N 1, H nBands];
        let s12 = Meth rows1 ''slice'' [N 1, H nBands];
        let s21 = Meth rows2 ''slice'' [N 1, N 0, H nBands];
        let c1 = Meth (Meth s12 ''matrixMultiply'' [H (Meth s22 ''matrixInverse'' [])])
                   ''matrixMultiply'' [H s21];
        let b1 = s11;
        let c2 = Meth (Meth s21 ''matrixMultiply'' [H (Meth s11 ''matrixInverse'' [])])
                   ''matrixMultiply'' [H s12];
        let b2 = s22;
        let lambdas = js_index (geneiv (H c1) (H b1)) 0;
        let A_js = js_index (geneiv (H c1) (H b1)) 1;
        let B_js = js_index (geneiv (H c2) (H b2)) 1;
        roots \<leftarrow> jmeth lambdas ''sqrt'' [];
        let rhos = Meth roots ''project'' [H (Call ''ee.List'' [Arr [N 1]])];
        let keys = Call ''ee.List.sequence'' [H nBands, N 1, N (- 1)];
        A_mat \<leftarrow> jmeth A_js ''sort'' [Arr [H keys]];
        B_mat \<leftarrow> jmeth B_js ''sort'' [Arr [H keys]];
        let rhos = Meth rhos ''sort'' [H keys];
        let lastrhos = Call ''ee.Array'' [H (Meth allrhos ''get'' [N (- 1)])];
        let done = Meth (Meth (Meth (Meth (Meth (Meth rhos ''subtract'' [H lastrhos]) ''abs'' [])
                      ''reduce'' [H (Call ''ee.Reducer.max'' []), H (Call ''ee.List'' [Arr [N 0]])])
                      ''lt'' [H (ee_Number (N 0.001))]) ''toList'' []) ''get'' [N 0];
        let allrhos = Meth allrhos ''cat'' [Arr [H (Meth rhos ''toList'' [])]];
        let sigma2s = Meth (Meth (Meth rhos ''subtract'' [N 1]) ''multiply'' [N (- 2)]) ''toList'' [];
        let sigma2s = Call ''ee.Image.constant'' [H sigma2s];
        let tmp = Meth (Meth s11 ''matrixDiagonal'' []) ''sqrt'' [];
        let ones = Meth (Meth tmp ''multiply'' [N 0]) ''add'' [N 1];
        let tmp = Meth (Meth ones ''divide'' [H tmp]) ''matrixToDiag'' [];
        let sgn = Meth (Meth (Meth (Meth tmp ''matrixMultiply'' [H s11]) ''matrixMultiply'' [H A_mat])
                     ''reduce'' [H (Call ''ee.Reducer.sum'' []), Arr [N 0]]) ''transpose'' [];
        let A_mat = Meth A_mat ''matrixMultiply''
                      [H (Meth (Meth sgn ''divide'' [H (Meth sgn ''abs'' [])]) ''matrixToDiag'' [])];
        let tmp = Meth (Meth (Meth (Meth A_mat ''transpose'' []) ''matrixMultiply'' [H s12])
                     ''matrixMultiply'' [H B_mat]) ''matrixDiagonal'' [];
        let tmp = Meth (Meth tmp ''divide'' [H (Meth tmp ''abs'' [])]) ''matrixToDiag'' [];
        let B_mat = Meth B_mat ''matrixMultiply'' [H tmp];
        let centeredImage1Array = Meth (Meth centeredImage1 ''toArray'' []) ''toArray'' [N 1];
        let centeredImage2Array = Meth (Meth centeredImage2 ''toArray'' []) ''toArray'' [N 1];
        let U = Meth (Meth (Meth (Call ''ee.Image'' [H (Meth A_mat ''transpose'' [])])
                   ''matrixMultiply'' [H centeredImage1Array]) ''arrayProject'' [Arr [N 0]])
                   ''arrayFlatten'' [Arr [H bNames1]];
        let V = Meth (Meth (Meth (Call ''ee.Image'' [H (Meth B_mat ''transpose'' [])])
                   ''matrixMultiply'' [H centeredImage2Array]) ''arrayProject'' [Arr [N 0]])
                   ''arrayFlatten'' [Arr [H bNames2]];
        let MAD = Meth U ''subtract'' [H V];
        let chi2 = Meth (Meth (Meth (Meth MAD ''pow'' [N 2]) ''divide'' [H sigma2s])
                      ''reduce'' [H (Call ''ee.Reducer.sum'' [])]) ''clip'' [H region];
        Some (Call ''ee.Dictionary''
                [Dict [(''done'', H done), (''image'', H img), (''allrhos'', H allrhos),
                       (''chi2'', H chi2), (''MAD'', H MAD)]])
      })"

text \<open>
  \<^verbatim>\<open>imad\<close> evaluates its three arguments of \<^verbatim>\<open>ee.Algorithms.If\<close> before the call, the
  third being \<^verbatim>\<open>imad1(current,prev)\<close>.
\<close>

definition imad :: "js \<Rightarrow> js \<Rightarrow> ee option" where
  "imad current prev =
     (let done = ee_Number (H (get (Call ''ee.Dictionary'' [prev]) ''done''))
      in do {
        next_step \<leftarrow> imad1 current prev;
        Some (Call ''ee.Algorithms.If'' [H done, prev, H next_step])
      })"

section \<open>The exported interface\<close>

text \<open>
  One constructor for each function the module exports, with its arguments, and the
  function \<open>run\<close> that performs the call in a state. The outcome is \<open>Some v\<close> when the
  call returns the value \<open>v\<close> (\<open>Undef\<close> when it returns nothing) and \<open>None\<close> when it
  raises a TypeError. \<^verbatim>\<open>color\<close> reads the table \<^verbatim>\<open>COLOR\<close> of the state it runs in.
\<close>

datatype call =
    svm_call ee js js js js
  | cart_call ee js js js
  | rf_call ee js js js
  | kmeans_call ee js js js js
  | simpleNDVIChangeDetection_call ee ee string js
  | simpleNDWIChangeDetection_call ee ee string js
  | simpleNDBIChangeDetection_call ee ee string js
  | texture_call ee js
  | majority_call ee js
  | color_call string
  | plotRGB_call js js
  | plotNDVI_call js js
  | plotNDWI_call js js
  | plotClass_call js js js
  | landsatIndices_call ee string "string option"
  | sentinel2Indices_call js "string option"
  | loadImg_call js "jsint option" js js
  | toaRadiance_call ee jsint
  | toaReflectance_call ee jsint
  | toaReflectanceL8_call ee jsint js
  | brightnessTempL5_K_call ee
  | brightnessTempL5_C_call ee
  | brightnessTempL7_K_call ee
  | brightnessTempL7_C_call ee
  | brightnessTempL8_K_call ee js
  | brightnessTempL8_C_call ee js
  | resample_call ee js
  | resampleBand_call ee js
  | loadS2ById_call js
  | loadL5ByPathRow_call "string option" js js js js
  | loadL7ByPathRow_call "string option" js js js js
  | loadL8ByPathRow_call "string option" js js js js
  | s2Mosaic_call js js js js
  | landsat5Mosaic_call js js js js
  | landsat7Mosaic_call js js js js
  | landsat8Mosaic_call js js js js
  | modisNdviMosaic_call js js js js
  | max_img_call ee
  | min_img_call ee
  | ndviL5_call ee
  | ndviL7_call ee
  | ndviL8_call ee
  | ndviS2_call ee
  | propVeg_call ee
  | landSurfaceEmissivity_call ee
  | landSurfaceTemperature_call ee
  | exportImg_call js js js js
  | cloudMask_call js
  | pca_call ee "jsint option" js js

fun run :: "call \<Rightarrow> lib_state \<Rightarrow> js option \<times> lib_state" where
  "run (svm_call a1 a2 a3 a4 a5) s = (Some (H (svm a1 a2 a3 a4 a5)), s)"
| "run (cart_call a1 a2 a3 a4) s = (Some (H (cart a1 a2 a3 a4)), s)"
| "run (rf_call a1 a2 a3 a4) s = (Some (H (rf a1 a2 a3 a4)), s)"
| "run (kmeans_call a1 a2 a3 a4 a5) s = apfst Some (kmeans a1 a2 a3 a4 a5 s)"
| "run (simpleNDVIChangeDetection_call a1 a2 a3 a4) s = apfst Some (simpleNDVIChangeDetection a1 a2 a3 a4 s)"
| "run (simpleNDWIChangeDetection_call a1 a2 a3 a4) s = apfst Some (simpleNDWIChangeDetection a1 a2 a3 a4 s)"
| "run (simpleNDBIChangeDetection_call a1 a2 a3 a4) s = apfst Some (simpleNDBIChangeDetection a1 a2 a3 a4 s)"
| "run (texture_call a1 a2) s = (Some (H (texture a1 a2)), s)"
| "run (majority_call a1 a2) s = (Some (H (majority a1 a2)), s)"
| "run (color_call a1) s = (Some (color (COLOR s) a1), s)"
| "run (plotRGB_call a1 a2) s = apfst Some (plotRGB a1 a2 s)"
| "run (plotNDVI_call a1 a2) s = apfst Some (plotNDVI a1 a2 s)"
| "run (plotNDWI_call a1 a2) s = apfst Some (plotNDWI a1 a2 s)"
| "run (plotClass_call a1 a2 a3) s = apfst Some (plotClass a1 a2 a3 s)"
| "run (landsatIndices_call a1 a2 a3) s = apfst Some (landsatIndices a1 a2 a3 s)"
| "run (sentinel2Indices_call a1 a2) s = sentinel2Indices a1 a2 s"
| "run (loadImg_call a1 a2 a3 a4) s = apfst Some (loadImg a1 a2 a3 a4 s)"
| "run (toaRadiance_call a1 a2) s = (Some (H (toaRadiance a1 a2)), s)"
| "run (toaReflectance_call a1 a2) s = (Some (H (toaReflectance a1 a2)), s)"
| "run (toaReflectanceL8_call a1 a2 a3) s = apfst Some (toaReflectanceL8 a1 a2 a3 s)"
| "run (brightnessTempL5_K_call a1) s = (Some (H (brightnessTempL5_K a1)), s)"
| "run (brightnessTempL5_C_call a1) s = (Some (H (brightnessTempL5_C a1)), s)"
| "run (brightnessTempL7_K_call a1) s = (Some (H (brightnessTempL7_K a1)), s)"
| "run (brightnessTempL7_C_call a1) s = (Some (H (brightnessTempL7_C a1)), s)"
| "run (brightnessTempL8_K_call a1 a2) s = (Some (H (brightnessTempL8_K a1 a2)), s)"
| "run (brightnessTempL8_C_call a1 a2) s = (Some (H (brightnessTempL8_C a1 a2)), s)"
| "run (resample_call a1 a2) s = (Some (H (resample a1 a2)), s)"
| "run (resampleBand_call a1 a2) s = (Some (H (resampleBand a1 a2)), s)"
| "run (loadS2ById_call a1) s = (Some (H (loadS2ById a1)), s)"
| "run (loadL5ByPathRow_call a1 a2 a3 a4 a5) s = apfst Some (loadL5ByPathRow a1 a2 a3 a4 a5 s)"
| "run (loadL7ByPathRow_call a1 a2 a3 a4 a5) s = apfst Some (loadL7ByPathRow a1 a2 a3 a4 a5 s)"
| "run (loadL8ByPathRow_call a1 a2 a3 a4 a5) s = apfst Some (loadL8ByPathRow a1 a2 a3 a4 a5 s)"
| "run (s2Mosaic_call a1 a2 a3 a4) s = apfst Some (s2Mosaic a1 a2 a3 a4 s)"
| "run (landsat5Mosaic_call a1 a2 a3 a4) s = apfst Some (landsat5Mosaic a1 a2 a3 a4 s)"
| "run (landsat7Mosaic_call a1 a2 a3 a4) s = apfst Some (landsat7Mosaic a1 a2 a3 a4 s)"
| "run (landsat8Mosaic_call a1 a2 a3 a4) s = apfst Some (landsat8Mosaic a1 a2 a3 a4 s)"
| "run (modisNdviMosaic_call a1 a2 a3 a4) s = apfst Some (modisNdviMosaic a1 a2 a3 a4 s)"
| "run (max_img_call a1) s = (Some (H (max_img a1)), s)"
| "run (min_img_call a1) s = (Some (H (min_img a1)), s)"
| "run (ndviL5_call a1) s = (Some (H (ndviL5 a1)), s)"
| "run (ndviL7_call a1) s = (Some (H (ndviL7 a1)), s)"
| "run (ndviL8_call a1) s = (Some (H (ndviL8 a1)), s)"
| "run (ndviS2_call a1) s = (Some (H (ndviS2 a1)), s)"
| "run (propVeg_call a1) s = (Some (H (propVeg a1)), s)"
| "run (landSurfaceEmissivity_call a1) s = (Some (H (landSurfaceEmissivity a1)), s)"
| "run (landSurfaceTemperature_call a1) s = (Some (H (landSurfaceTemperature a1)), s)"
| "run (exportImg_call a1 a2 a3 a4) s = apfst Some (exportImg a1 a2 a3 a4 s)"
| "run (cloudMask_call a1) s = cloudMask a1 s"
| "run (pca_call a1 a2 a3 a4) s = (Some (pca a1 a2 a3 a4), s)"

text \<open>The states the program can be in: the initial one, and any state after a call.\<close>

inductive reachable :: "lib_state \<Rightarrow> bool" where
  reachable_init: "reachable init_state"
| reachable_run: "reachable s \<Longrightarrow> reachable (snd (run c s))"

section \<open>Reading results\<close>

text \<open>
  The properties below speak about the shape of a returned graph: the bands a result adds
  to an image with \<^verbatim>\<open>addBands\<close>, the image they are added to, and the name a band was
  given with \<^verbatim>\<open>rename\<close>.
\<close>

definition added_bands :: "js \<Rightarrow> js list" where
  "added_bands r =
     (case r of
        H (Meth recv m [x]) \<Rightarrow>
          (if m = ''addBands'' then (case x of Arr bs \<Rightarrow> bs | _ \<Rightarrow> [x]) else [])
      | _ \<Rightarrow> [])"

definition base_image :: "js \<Rightarrow> ee option" where
  "base_image r =
     (case r of
        H (Meth recv m [x]) \<Rightarrow> (if m = ''addBands'' then Some recv else None)
      | _ \<Rightarrow> None)"

definition band_name :: "js \<Rightarrow> string option" where
  "band_name b =
     (case b of
        H (Meth e m [S n]) \<Rightarrow> (if m = ''rename'' then Some n else None)
      | _ \<Rightarrow> None)"

definition band_named :: "string \<Rightarrow> js \<Rightarrow> js option" where
  "band_named n r = find (\<lambda>b. band_name b = Some n) (added_bands r)"

text \<open>
  A result is frame-preserving for an input image when it is that image with bands
  added: \<^verbatim>\<open>image.addBands(...)\<close>.
\<close>

definition frame_preserving :: "ee \<Rightarrow> js \<Rightarrow> bool" where
  "frame_preserving img r = (base_image r = Some img)"

text \<open>The band that \<^verbatim>\<open>sentinel2Indices\<close> adds to an image when asked for one index.\<close>

definition single_index_band :: "ee \<Rightarrow> lib_state \<Rightarrow> string \<Rightarrow> js option" where
  "single_index_band img s n =
     (case fst (sentinel2Indices (H img) (Some n) s) of
        Some r \<Rightarrow> (case added_bands r of [b] \<Rightarrow> Some b | _ \<Rightarrow> None)
      | None \<Rightarrow> None)"



text \<open>
  The kinds of outcome of a call of an exported function: the kind of the value
  returned, or the TypeError raised.
\<close>

datatype kind = Handle | Undefined | String | HandlePair | Other | TypeError

fun kind_of :: "js \<Rightarrow> kind" where
  "kind_of (H e) = Handle"
| "kind_of Undef = Undefined"
| "kind_of (S x) = String"
| "kind_of (Arr xs) = (case xs of [H a, H b] \<Rightarrow> HandlePair | _ \<Rightarrow> Other)"
| "kind_of v = Other"

definition outcome_kind :: "js option \<Rightarrow> kind" where
  "outcome_kind r = (case r of Some v \<Rightarrow> kind_of v | None \<Rightarrow> TypeError)"

definition known_sensors :: "string list" where
  "known_sensors = [''L5'', ''L7'', ''L8'', ''S2'']"

definition landsat_index_names :: "string list" where
  "landsat_index_names = [''NDVI'', ''NDWI'', ''NDBI'', ''NRVI'', ''EVI'', ''SAVI'', ''GOSAVI'']"

definition landsat_index_names_lower :: "string list" where
  "landsat_index_names_lower = [''ndvi'', ''ndwi'', ''ndbi'', ''nrvi'', ''evi'', ''savi'', ''gosavi'']"

definition s2_index_names :: "string list" where
  "s2_index_names =
     [''ndvi'', ''ndwi'', ''ndbi'', ''mndwi'', ''mndvi'', ''ngrdi'', ''ndsi'', ''ri'', ''ndmi'',
      ''gndvi'', ''bndvi'', ''nbr'', ''ppr'', ''ndre'', ''lci'', ''savi'', ''gosavi'', ''evi'',
      ''evi2'', ''gemi'', ''rvi'', ''logr'', ''tvi'']"

definition collection_types :: "string list" where
  "collection_types = [''raw'', ''toa'', ''sr'']"

text \<open>
  The kind of outcome stated for each exported function, by function and arguments;
  \<open>None\<close> where nothing is stated. Plotting and exporting return nothing; \<^verbatim>\<open>color\<close>
  returns a string; \<^verbatim>\<open>pca\<close> returns a pair of handles in an array; the functions that
  select by sensor, index or collection type return a handle on the values they
  recognise and nothing otherwise; \<^verbatim>\<open>sentinel2Indices\<close> and \<^verbatim>\<open>cloudMask\<close> raise a TypeError
  when they come to use an image that is not an object; every other function returns a
  handle. Nothing is stated for \<^verbatim>\<open>landsatIndices\<close> on an index that is one of its seven
  names written in another letter case.
\<close>

fun result_kind :: "call \<Rightarrow> kind option" where
  "result_kind (simpleNDVIChangeDetection_call img1 img2 sensor threshold) =
     Some (if sensor \<in> set known_sensors then Handle else Undefined)"
| "result_kind (simpleNDWIChangeDetection_call img1 img2 sensor threshold) =
     Some (if sensor \<in> set known_sensors then Handle else Undefined)"
| "result_kind (simpleNDBIChangeDetection_call img1 img2 sensor threshold) =
     Some (if sensor \<in> set known_sensors then Handle else Undefined)"
| "result_kind (landsatIndices_call img sensor index) =
     (case index of
        None \<Rightarrow> Some (if sensor \<in> set known_sensors then Handle else Undefined)
      | Some ix \<Rightarrow>
          (if ix \<in> set landsat_index_names then
             Some (if sensor \<in> set known_sensors \<and> \<not> (ix = ''NRVI'' \<and> sensor = ''S2'')
                   then Handle else Undefined)
           else if toLowerCase ix \<in> set landsat_index_names_lower then None
           else Some Undefined))"
| "result_kind (sentinel2Indices_call image_arg index) =
     (case index of
        None \<Rightarrow> Some (if is_handle image_arg then Handle else TypeError)
      | Some ix \<Rightarrow>
          Some (if toLowerCase ix \<in> set s2_index_names
                then (if is_handle image_arg then Handle else TypeError)
                else Undefined))"
| "result_kind (cloudMask_call image_arg) =
     Some (if is_handle image_arg then Handle else TypeError)"
| "result_kind (loadL5ByPathRow_call collection path row startYear endYear) =
     (case collection of
        None \<Rightarrow> Some Handle
      | Some c \<Rightarrow> Some (if toLowerCase c \<in> set collection_types then Handle else Undefined))"
| "result_kind (loadL7ByPathRow_call collection path row startYear endYear) =
     (case collection of
        None \<Rightarrow> Some Handle
      | Some c \<Rightarrow> Some (if toLowerCase c \<in> set collection_types then Handle else Undefined))"
| "result_kind (loadL8ByPathRow_call collection path row startYear endYear) =
     (case collection of
        None \<Rightarrow> Some Handle
      | Some c \<Rightarrow> Some (if toLowerCase c \<in> set collection_types then Handle else Undefined))"
| "result_kind (plotRGB_call img title) = Some Undefined"
| "result_kind (plotNDVI_call img title) = Some Undefined"
| "result_kind (plotNDWI_call img title) = Some Undefined"
| "result_kind (plotClass_call img numClasses title) = Some Undefined"
| "result_kind (exportImg_call img outFilename scale maxPixels) = Some Undefined"
| "result_kind (color_call name) = Some String"
| "result_kind (pca_call img nbands scale maxPixels) = Some HandlePair"
| "result_kind c = Some Handle"

section \<open>Properties of the string helpers\<close>

lemma toLower_char_idem: "toLower_char (toLower_char c) = toLower_char c"
  by (auto simp: toLower_char_def Let_def)

lemma toLowerCase_idem: "toLowerCase (toLowerCase s) = toLowerCase s"
  by (simp add: toLowerCase_def toLower_char_idem)

lemma toLowerCase_WaTer: "toLowerCase ''WaTer'' = ''water''"
  by code_simp

lemma toLowerCase_Grass: "toLowerCase ''Grass'' = ''grass''"
  by code_simp

lemma toLowerCase_Foo: "toLowerCase ''Foo'' = ''foo''"
  by code_simp

lemma toLowerCase_NdVi: "toLowerCase ''NdVi'' = ''ndvi''"
  by code_simp

lemmas node_defs = select_def rename_def normalizedDifference_def expression_def addBands_def
  ee_Number_def get_def

lemmas shape_defs = added_bands_def base_image_def band_name_def band_named_def
  frame_preserving_def

lemmas effect_defs = print_def Map_addLayer_def Export_image_toDrive_def

section \<open>The generalized eigenproblem\<close>

text \<open>
  Claim C2 says that \<^verbatim>\<open>geneiv\<close> returns the pair of the eigenvalues and the eigenvectors,
  read by \<^verbatim>\<open>imad1\<close> as \<^verbatim>\<open>geneiv(c1,b1)[0]\<close> and \<^verbatim>\<open>geneiv(c1,b1)[1]\<close>. The code returns the
  value of the comma expression \<^verbatim>\<open>(lambdas,eigenvecs)\<close>: a single handle, the product
  \<^verbatim>\<open>Li.matrixTranspose().matrixMultiply(X)\<close> of the eigenvectors, on which both index
  reads give \<^verbatim>\<open>undefined\<close>.
\<close>

theorem geneiv_comma_result:
  "kind_of (geneiv Cm Bm) = Handle \<and>
   js_index (geneiv Cm Bm) 0 = Undef \<and> js_index (geneiv Cm Bm) 1 = Undef \<and>
   (\<exists>Li X. geneiv Cm Bm = H (Meth (Meth Li ''matrixTranspose'' []) ''matrixMultiply'' [H X]))"
  by (simp add: geneiv_def Let_def comma_def)

section \<open>The iteration step\<close>

lemma imad1_throws: "imad1 current prev = None"
  by (simp add: imad1_def Let_def geneiv_def comma_def covarw_def)

text \<open>
  Claim C3 says that \<^verbatim>\<open>imad\<close> hands back its accumulator unchanged once the entry
  \<^verbatim>\<open>done\<close> is true, and that \<^verbatim>\<open>imad1\<close> sets \<^verbatim>\<open>done\<close> from the convergence test. In the
  code \<^verbatim>\<open>imad\<close> evaluates \<^verbatim>\<open>imad1(current,prev)\<close> before it can build the conditional, and
  \<^verbatim>\<open>imad1\<close> calls \<^verbatim>\<open>sqrt\<close> on \<^verbatim>\<open>geneiv(c1,b1)[0]\<close>, which is \<^verbatim>\<open>undefined\<close>: for every
  accumulator, whatever its entry \<^verbatim>\<open>done\<close>, the call raises a TypeError and returns
  nothing.
\<close>

theorem imad_raises_TypeError: "imad current prev = None"
  by (simp add: imad_def imad1_throws Let_def)

section \<open>Index definitions of the two branches of landsatIndices\<close>

lemma landsatIndices_NDVI_NDBI_agree:
  "band_named ''NDVI'' (fst (landsatIndices img ''L5'' (Some ''NDVI'') s))
     = band_named ''NDVI'' (fst (landsatIndices img ''L5'' None s)) \<and>
   band_named ''NDBI'' (fst (landsatIndices img ''L5'' (Some ''NDBI'') s))
     = band_named ''NDBI'' (fst (landsatIndices img ''L5'' None s)) \<and>
   band_named ''NDVI'' (fst (landsatIndices img ''L7'' (Some ''NDVI'') s))
     = band_named ''NDVI'' (fst (landsatIndices img ''L7'' None s)) \<and>
   band_named ''NDBI'' (fst (landsatIndices img ''L7'' (Some ''NDBI'') s))
     = band_named ''NDBI'' (fst (landsatIndices img ''L7'' None s)) \<and>
   band_named ''NDVI'' (fst (landsatIndices img ''L8'' (Some ''NDVI'') s))
     = band_named ''NDVI'' (fst (landsatIndices img ''L8'' None s)) \<and>
   band_named ''NDBI'' (fst (landsatIndices img ''L8'' (Some ''NDBI'') s))
     = band_named ''NDBI'' (fst (landsatIndices img ''L8'' None s))"
  by (simp add: landsatIndices_def Let_def shape_defs node_defs)

lemma simpleNDWIChangeDetection_L5_pair:
  "fst (simpleNDWIChangeDetection img1 img2 ''L5'' t s) =
     H (Meth (Meth (select (rename (normalizedDifference img1 ''B3'' ''B5'') ''NDWI'') ''NDWI'')
                ''gte'' [t])
          ''add'' [H (Meth (select (rename (normalizedDifference img2 ''B3'' ''B5'') ''NDWI'')
                              ''NDWI'') ''gte'' [t])])"
  by (simp add: simpleNDWIChangeDetection_def Let_def)

text \<open>
  Claim C4 says that the band of an index requested alone and the band of the same
  name in the image with all indices come from the same pair of bands, for the sensors
  L5, L7 and L8. For NDVI and NDBI they do. For NDWI the single-index branch takes the
  pair B3, B5 on L5 and L7 and B4, B6 on L8, as \<^verbatim>\<open>simpleNDWIChangeDetection\<close> does, and
  the all-indices branch takes B2, B5 and B3, B6.
\<close>

theorem landsatIndices_NDWI_pairs:
  "band_named ''NDWI'' (fst (landsatIndices img ''L5'' (Some ''NDWI'') s))
     = Some (H (rename (normalizedDifference img ''B3'' ''B5'') ''NDWI'')) \<and>
   band_named ''NDWI'' (fst (landsatIndices img ''L5'' None s))
     = Some (H (rename (normalizedDifference img ''B2'' ''B5'') ''NDWI'')) \<and>
   band_named ''NDWI'' (fst (landsatIndices img ''L7'' (Some ''NDWI'') s))
     = Some (H (rename (normalizedDifference img ''B3'' ''B5'') ''NDWI'')) \<and>
   band_named ''NDWI'' (fst (landsatIndices img ''L7'' None s))
     = Some (H (rename (normalizedDifference img ''B2'' ''B5'') ''NDWI'')) \<and>
   band_named ''NDWI'' (fst (landsatIndices img ''L8'' (Some ''NDWI'') s))
     = Some (H (rename (normalizedDifference img ''B4'' ''B6'') ''NDWI'')) \<and>
   band_named ''NDWI'' (fst (landsatIndices img ''L8'' None s))
     = Some (H (rename (normalizedDifference img ''B3'' ''B6'') ''NDWI''))"
  by (simp add: landsatIndices_def Let_def shape_defs node_defs)

section \<open>The reductions\<close>



section \<open>Top-of-atmosphere corrections and the frame\<close>

text \<open>
  Claim C7 as stated, for \<^verbatim>\<open>toaReflectance\<close>: the result would be the input image with a
  band added. On the image \<open>LC8\<close> and band 10 it is not.
\<close>

theorem toaReflectance_frame_counterexample:
  "\<not> frame_preserving (Ext ''LC8'') (H (toaReflectance (Ext ''LC8'') (Jsint 10)))"
  by (simp add: toaReflectance_def Let_def shape_defs node_defs)

text \<open>
  Claim C7, amended. \<^verbatim>\<open>toaRadiance(image, band)\<close> returns the input image with one band
  added by \<^verbatim>\<open>addBands\<close>: the band \<^verbatim>\<open>(Ml * band) + Al\<close> of the selected band and its two
  radiance factors, named \<^verbatim>\<open>TOA_Radiance\<close>. \<^verbatim>\<open>toaReflectance(image, band)\<close> returns the new
  band alone, \<^verbatim>\<open>(Mp * image) + Ap\<close> of the selected band and its two reflectance factors,
  named \<^verbatim>\<open>B\<close>, the band number, \<^verbatim>\<open>_TOA_Reflectance\<close>: it is not the input image and adds
  no band to it.
\<close>

theorem toa_radiance_appends_reflectance_returns_band:
  "toaRadiance img band =
     addBands img (H (rename (expression (select img (''B'' @ toString band)) ''(Ml * band) + Al''
        [(''Ml'', H (ee_Number (H (get img (''RADIANCE_MULT_BAND_'' @ toString band))))),
         (''Al'', H (ee_Number (H (get img (''RADIANCE_ADD_BAND_'' @ toString band))))),
         (''band'', H (select img (''B'' @ toString band)))]) ''TOA_Radiance'')) \<and>
   toaReflectance img band =
     rename (expression (select img (''B'' @ toString band)) ''(Mp * image) + Ap''
        [(''Mp'', H (ee_Number (H (get img (''REFLECTANCE_MULT_BAND_'' @ toString band))))),
         (''Ap'', H (ee_Number (H (get img (''REFLECTANCE_ADD_BAND_'' @ toString band))))),
         (''image'', H (select img (''B'' @ toString band)))])
       (''B'' @ toString band @ ''_TOA_Reflectance'') \<and>
   frame_preserving img (H (toaRadiance img band)) \<and>
   map band_name (added_bands (H (toaRadiance img band))) = [Some ''TOA_Radiance''] \<and>
   band_name (H (toaReflectance img band)) = Some (''B'' @ toString band @ ''_TOA_Reflectance'') \<and>
   base_image (H (toaReflectance img band)) = None \<and>
   added_bands (H (toaReflectance img band)) = []"
  by (simp add: toaRadiance_def toaReflectance_def Let_def shape_defs node_defs)

section \<open>Brightness temperature of Landsat 8\<close>

text \<open>
  Claim C8. Whatever is passed as \<^verbatim>\<open>single\<close>, also nothing, \<^verbatim>\<open>brightnessTempL8_K\<close> returns
  the image with the same band \<^verbatim>\<open>Brightness_Temperature\<close> added, built from the band
  \<^verbatim>\<open>TOA_Radiance\<close> and the two constants of band 10 only; \<^verbatim>\<open>brightnessTempL8_C\<close> returns
  the image with that band minus 273.5 added. So the two branches of each function are
  equal, and the constants of band 11 do not occur in the result.
\<close>

theorem brightnessTempL8_branches_equal:
  "brightnessTempL8_K img single =
     addBands img (H (rename (expression img ''K2 / brightness_temp_log''
        [(''K2'', H (ee_Number (H (get img ''K2_CONSTANT_BAND_10'')))),
         (''brightness_temp_log'', H (Meth (expression img ''K1 / B10 + 1''
            [(''K1'', H (ee_Number (H (get img ''K1_CONSTANT_BAND_10'')))),
             (''B10'', H (select img ''TOA_Radiance''))]) ''log'' []))])
        ''Brightness_Temperature'')) \<and>
   brightnessTempL8_C img single =
     addBands img (H (Meth (rename (expression img ''K2 / brightness_temp_log''
        [(''K2'', H (ee_Number (H (get img ''K2_CONSTANT_BAND_10'')))),
         (''brightness_temp_log'', H (Meth (expression img ''K1 / B10 + 1''
            [(''K1'', H (ee_Number (H (get img ''K1_CONSTANT_BAND_10'')))),
             (''B10'', H (select img ''TOA_Radiance''))]) ''log'' []))])
        ''Brightness_Temperature'') ''subtract'' [N 273.5]))"
  by (simp add: brightnessTempL8_K_def brightnessTempL8_C_def Let_def)

section \<open>Index selection of sentinel2Indices\<close>

lemma sentinel2Indices_index_matching:
  "fst (sentinel2Indices image_arg (Some ix) s)
     = fst (sentinel2Indices image_arg (Some (toLowerCase ix)) s) \<and>
   (toLowerCase ix \<notin> set s2_index_names \<longrightarrow>
      fst (sentinel2Indices image_arg (Some ix) s) = Some Undef \<and>
      snd (sentinel2Indices (H img) (Some ix) s) = s) \<and>
   (toLowerCase ix \<in> set s2_index_names \<longrightarrow>
      (case fst (sentinel2Indices (H img) (Some ix) s) of
         Some r \<Rightarrow> frame_preserving img r \<and> length (added_bands r) = 1
       | None \<Rightarrow> False))"
proof -
  have a: "fst (sentinel2Indices image_arg (Some ix) s)
             = fst (sentinel2Indices image_arg (Some (toLowerCase ix)) s)"
    by (simp add: sentinel2Indices_def toLowerCase_idem Let_def)
  have b: "toLowerCase ix \<notin> set s2_index_names \<Longrightarrow>
             fst (sentinel2Indices image_arg (Some ix) s) = Some Undef \<and>
             snd (sentinel2Indices (H img) (Some ix) s) = s"
    by (simp add: sentinel2Indices_def s2_index_names_def Let_def)
  have c: "toLowerCase ix \<in> set s2_index_names \<Longrightarrow>
             (case fst (sentinel2Indices (H img) (Some ix) s) of
                Some r \<Rightarrow> frame_preserving img r \<and> length (added_bands r) = 1
              | None \<Rightarrow> False)"
    by (auto simp: sentinel2Indices_def s2_index_names_def Let_def on_object_def shape_defs
          node_defs)
  from a b c show ?thesis by blast
qed

text \<open>
  Claim C9 says that omitting the index gives the image with all indices. Asked for
  \<^verbatim>\<open>gemi\<close> alone, \<^verbatim>\<open>sentinel2Indices\<close> adds the band \<^verbatim>\<open>GEMI\<close>. With the index omitted it
  adds 22 bands, each the band it adds for that index alone, and none of them is
  \<^verbatim>\<open>GEMI\<close>: one of the 23 indices is missing from the image with all indices.
\<close>

theorem sentinel2Indices_all_indices_lacks_GEMI:
  "single_index_band img s ''gemi'' =
     Some (H (rename (expression img
        ''(((NIR_POW - RED_POW) * 2 + (NIR * 1.5) + (RED * 0.5))/(NIR + RED + 0.5)) * (1 - ((((NIR_POW - RED_POW) * 2 + (NIR * 1.5) + (RED * 0.5)) / (NIR + RED + 0.5)) * 0.25)) - ((RED - 0.125) / (1 - RED))''
        [(''RED'', H (select img ''B4'')), (''NIR'', H (select img ''B8'')),
         (''RED_POW'', H (Meth (select img ''B4'') ''pow'' [N 2])),
         (''NIR_POW'', H (Meth (select img ''B8'') ''pow'' [N 2]))]) ''GEMI'')) \<and>
   (case fst (sentinel2Indices (H img) (Some ''gemi'') s) of
      Some r \<Rightarrow> frame_preserving img r \<and> map band_name (added_bands r) = [Some ''GEMI'']
    | None \<Rightarrow> False) \<and>
   (case fst (sentinel2Indices (H img) None s) of
      Some r \<Rightarrow>
        frame_preserving img r \<and>
        band_named ''GEMI'' r = None \<and>
        map band_name (added_bands r) =
          map Some [''NDVI'', ''NDWI'', ''NDBI'', ''MNDWI'', ''MNDVI'', ''NGRDI'', ''NDSI'', ''RI'',
           ''NDMI'', ''GNDVI'', ''BNDVI'', ''NBR'', ''PPR'', ''NDRE'', ''LCI'', ''SAVI'', ''GOSAVI'',
           ''EVI'', ''EVI2'', ''RVI'', ''logR'', ''TVI''] \<and>
        map Some (added_bands r) =
          map (single_index_band img s) [''ndvi'', ''ndwi'', ''ndbi'', ''mndwi'', ''mndvi'', ''ngrdi'', ''ndsi'', ''ri'',
           ''ndmi'', ''gndvi'', ''bndvi'', ''nbr'', ''ppr'', ''ndre'', ''lci'', ''savi'', ''gosavi'',
           ''evi'', ''evi2'', ''rvi'', ''logr'', ''tvi'']
    | None \<Rightarrow> False)"
proof -
  have g: "(case fst (sentinel2Indices (H img) (Some ''gemi'') s) of
      Some r \<Rightarrow> frame_preserving img r \<and> map band_name (added_bands r) = [Some ''GEMI'']
    | None \<Rightarrow> False)"
    by (simp add: sentinel2Indices_def Let_def on_object_def toLowerCase_def toLower_char_def
          shape_defs node_defs)
  have x: "single_index_band img s ''gemi'' =
     Some (H (rename (expression img
        ''(((NIR_POW - RED_POW) * 2 + (NIR * 1.5) + (RED * 0.5))/(NIR + RED + 0.5)) * (1 - ((((NIR_POW - RED_POW) * 2 + (NIR * 1.5) + (RED * 0.5)) / (NIR + RED + 0.5)) * 0.25)) - ((RED - 0.125) / (1 - RED))''
        [(''RED'', H (select img ''B4'')), (''NIR'', H (select img ''B8'')),
         (''RED_POW'', H (Meth (select img ''B4'') ''pow'' [N 2])),
         (''NIR_POW'', H (Meth (select img ''B8'') ''pow'' [N 2]))]) ''GEMI''))"
    by (simp add: single_index_band_def sentinel2Indices_def Let_def on_object_def
          toLowerCase_def toLower_char_def shape_defs node_defs)
  have v: "fst (sentinel2Indices (H img) None s) \<noteq> None"
    by (simp add: sentinel2Indices_def Let_def on_object_def)
  have f: "\<And>r. fst (sentinel2Indices (H img) None s) = Some r \<Longrightarrow> frame_preserving img r"
    by (auto simp: sentinel2Indices_def Let_def on_object_def shape_defs node_defs)
  have m: "\<And>r. fst (sentinel2Indices (H img) None s) = Some r \<Longrightarrow> band_named ''GEMI'' r = None"
    by (auto simp: sentinel2Indices_def Let_def on_object_def shape_defs node_defs)
  have n: "\<And>r. fst (sentinel2Indices (H img) None s) = Some r \<Longrightarrow>
        map band_name (added_bands r) =
          map Some [''NDVI'', ''NDWI'', ''NDBI'', ''MNDWI'', ''MNDVI'', ''NGRDI'', ''NDSI'', ''RI'',
           ''NDMI'', ''GNDVI'', ''BNDVI'', ''NBR'', ''PPR'', ''NDRE'', ''LCI'', ''SAVI'', ''GOSAVI'',
           ''EVI'', ''EVI2'', ''RVI'', ''logR'', ''TVI'']"
    by (auto simp: sentinel2Indices_def Let_def on_object_def shape_defs node_defs)
  have e: "\<And>r. fst (sentinel2Indices (H img) None s) = Some r \<Longrightarrow>
        map Some (added_bands r) =
          map (single_index_band img s) [''ndvi'', ''ndwi'', ''ndbi'', ''mndwi'', ''mndvi'', ''ngrdi'', ''ndsi'', ''ri'',
           ''ndmi'', ''gndvi'', ''bndvi'', ''nbr'', ''ppr'', ''ndre'', ''lci'', ''savi'', ''gosavi'',
           ''evi'', ''evi2'', ''rvi'', ''logr'', ''tvi'']"
    by (auto simp: single_index_band_def sentinel2Indices_def Let_def on_object_def
          toLowerCase_def toLower_char_def shape_defs node_defs)
  from x g v f m n e show ?thesis by (auto split: option.split)
qed

section \<open>The colour lookup\<close>

text \<open>
  Claim C10. \<^verbatim>\<open>color\<close> is case-insensitive: a name and its lower-case form give the
  same result. On the six names water, forest, pasture, urban, shadow and null, in any
  mix of cases, it returns the six-digit entry of the \<^verbatim>\<open>COLOR\<close> table; on every other
  string it returns the fixed message that starts with \<^verbatim>\<open>Error:\<close>, as an ordinary
  string value.
\<close>

theorem color_case_insensitive_total:
  "color tbl s = color tbl (toLowerCase s) \<and>
   (toLowerCase s = ''water'' \<longrightarrow> color COLOR_init s = S ''0066ff'') \<and>
   (toLowerCase s = ''forest'' \<longrightarrow> color COLOR_init s = S ''009933'') \<and>
   (toLowerCase s = ''pasture'' \<longrightarrow> color COLOR_init s = S ''99cc00'') \<and>
   (toLowerCase s = ''urban'' \<longrightarrow> color COLOR_init s = S ''ff0000'') \<and>
   (toLowerCase s = ''shadow'' \<longrightarrow> color COLOR_init s = S ''000000'') \<and>
   (toLowerCase s = ''null'' \<longrightarrow> color COLOR_init s = S ''808080'') \<and>
   (toLowerCase s \<notin> set [''water'', ''forest'', ''pasture'', ''urban'', ''shadow'', ''null''] \<longrightarrow>
      color COLOR_init s = S color_error \<and> take 6 color_error = ''Error:'')"
  by (simp add: color_def toLowerCase_idem Let_def property_def COLOR_init_def color_error_def)

theorem color_case_insensitive_total_witness:
  "toLowerCase ''WaTer'' = ''water'' \<and> color COLOR_init ''WaTer'' = S ''0066ff'' \<and>
   toLowerCase ''Grass'' \<notin> set [''water'', ''forest'', ''pasture'', ''urban'', ''shadow'', ''null''] \<and>
   color COLOR_init ''Grass'' = S color_error \<and> take 6 color_error = ''Error:''"
proof -
  have nm: "toLowerCase ''Grass'' \<notin> set [''water'', ''forest'', ''pasture'', ''urban'', ''shadow'', ''null'']"
    by (simp add: toLowerCase_Grass)
  have w: "color COLOR_init ''WaTer'' = S ''0066ff''"
    using color_case_insensitive_total [of COLOR_init "''WaTer''"] toLowerCase_WaTer by blast
  have g: "color COLOR_init ''Grass'' = S color_error \<and> take 6 color_error = ''Error:''"
    using color_case_insensitive_total [of COLOR_init "''Grass''"] nm by blast
  show ?thesis using toLowerCase_WaTer nm w g by blast
qed


section \<open>What the exported functions return\<close>

lemmas st_defs = kmeans_def simpleNDVIChangeDetection_def simpleNDWIChangeDetection_def
  simpleNDBIChangeDetection_def plotRGB_def plotNDVI_def plotNDWI_def plotClass_def
  loadImg_def toaReflectanceL8_def loadL5ByPathRow_def loadL7ByPathRow_def
  loadL8ByPathRow_def s2Mosaic_def landsat5Mosaic_def landsat7Mosaic_def landsat8Mosaic_def
  modisNdviMosaic_def exportImg_def

lemma landsatIndices_COLOR: "COLOR (snd (landsatIndices img sensor index s)) = COLOR s"
  by (simp add: landsatIndices_def Let_def effect_defs split: option.split)

lemma landsatIndices_fst:
  "fst (landsatIndices img sensor index s) = fst (landsatIndices img sensor index s')"
  by (simp add: landsatIndices_def Let_def split: option.split)

lemma sentinel2Indices_COLOR: "COLOR (snd (sentinel2Indices image_arg index s)) = COLOR s"
  by (simp add: sentinel2Indices_def Let_def effect_defs split: option.split)

lemma sentinel2Indices_fst:
  "fst (sentinel2Indices image_arg index s) = fst (sentinel2Indices image_arg index s')"
  by (simp add: sentinel2Indices_def Let_def split: option.split)

lemma cloudMask_COLOR: "COLOR (snd (cloudMask image_arg s)) = COLOR s"
  by (simp add: cloudMask_def Let_def error_def effect_defs)

lemma cloudMask_fst: "fst (cloudMask image_arg s) = fst (cloudMask image_arg s')"
  by (simp add: cloudMask_def Let_def)

lemma run_COLOR: "COLOR (snd (run c s)) = COLOR s"
  by (cases c) (simp_all add: landsatIndices_COLOR sentinel2Indices_COLOR cloudMask_COLOR
       st_defs Let_def effect_defs split_beta split: option.split js.split)

lemma run_fst: "COLOR s = COLOR s' \<Longrightarrow> fst (run c s) = fst (run c s')"
proof (cases c)
  case (landsatIndices_call img sensor index)
  then show ?thesis using landsatIndices_fst [of img sensor index s s'] by simp
next
  case (sentinel2Indices_call image_arg index)
  then show ?thesis using sentinel2Indices_fst [of image_arg index s s'] by simp
next
  case (cloudMask_call image_arg)
  then show ?thesis using cloudMask_fst [of image_arg s s'] by simp
qed (simp_all add: st_defs Let_def effect_defs split_beta split: option.split js.split)

lemma reachable_COLOR: "reachable s \<Longrightarrow> COLOR s = COLOR_init"
  by (induction rule: reachable.induct) (simp_all add: init_state_def run_COLOR)

lemma landsatIndices_kind:
  "kind_of (fst (landsatIndices img sensor index s)) =
     (case index of
        None \<Rightarrow> (if sensor \<in> set known_sensors then Handle else Undefined)
      | Some ix \<Rightarrow>
          (if sensor \<in> set known_sensors \<and> ix \<in> set landsat_index_names
              \<and> \<not> (ix = ''NRVI'' \<and> sensor = ''S2'')
           then Handle else Undefined))"
  by (simp add: landsatIndices_def Let_def known_sensors_def landsat_index_names_def
        split: option.split)

lemma landsatIndices_result_kind:
  assumes "result_kind (landsatIndices_call img sensor index) = Some k"
  shows "kind_of (fst (landsatIndices img sensor index s)) = k"
proof (cases index)
  case None
  then show ?thesis using assms by (simp add: landsatIndices_kind)
next
  case (Some ix)
  show ?thesis
  proof (cases "ix \<in> set landsat_index_names")
    case True
    then show ?thesis using assms Some by (simp add: landsatIndices_kind)
  next
    case False
    then have "k = Undefined" using assms Some by (simp split: if_splits)
    then show ?thesis using False Some by (simp add: landsatIndices_kind)
  qed
qed

lemma sentinel2Indices_kind:
  "result_kind (sentinel2Indices_call image_arg index)
     = Some (outcome_kind (fst (sentinel2Indices image_arg index s)))"
  by (cases image_arg)
     (simp_all add: sentinel2Indices_def Let_def s2_index_names_def on_object_def
        outcome_kind_def split: option.split)

lemma cloudMask_kind:
  "result_kind (cloudMask_call image_arg) = Some (outcome_kind (fst (cloudMask image_arg s)))"
  by (cases image_arg) (simp_all add: cloudMask_def Let_def on_object_def outcome_kind_def)

lemma color_kind: "kind_of (color COLOR_init n) = String"
  by (simp add: color_def Let_def property_def COLOR_init_def)

text \<open>
  The documentation of \<^verbatim>\<open>landsatIndices\<close> gives the call with the index \<^verbatim>\<open>savi\<close> as the
  way to create SAVI alone. The \<^verbatim>\<open>switch\<close> knows the upper-case names only: the call
  returns nothing and prints nothing.
\<close>

lemma landsatIndices_lower_case_index:
  "landsatIndices img ''L5'' (Some ''savi'') s = (Undef, s) \<and>
   kind_of (fst (landsatIndices img ''L5'' (Some ''SAVI'') s)) = Handle"
  by (simp add: landsatIndices_def Let_def)

text \<open>
  Claim C1 as stated: every exported function returns a handle on every input. Four
  calls that return \<^verbatim>\<open>undefined\<close>: a change detection and an index generation with the
  sensor \<^verbatim>\<open>L9\<close>, a plot of a classification, and an export.
\<close>

theorem exported_functions_return_handle_counterexample:
  "fst (run (simpleNDVIChangeDetection_call (Ext ''img_2014'') (Ext ''img_2015'')
               ''L9'' (N 0.5)) init_state) = Some Undef \<and>
   fst (run (landsatIndices_call (Ext ''img_2014'') ''L9'' None) init_state) = Some Undef \<and>
   fst (run (plotClass_call (H (Ext ''classified'')) (N 4) (S ''class_final''))
               init_state) = Some Undef \<and>
   fst (run (exportImg_call (H (Ext ''img_2014'')) (S ''output_img'') Undef Undef)
               init_state) = Some Undef"
  by (simp add: simpleNDVIChangeDetection_def landsatIndices_def plotClass_def exportImg_def
        Let_def)

text \<open>
  Claim C1, amended. In every state the program reaches, a call of an exported function
  whose image arguments are handles has the outcome that \<open>result_kind\<close> lists for it:
  it returns a handle of a remote computation, except that the four plot functions and
  \<^verbatim>\<open>exportImg\<close> return nothing, \<^verbatim>\<open>color\<close> returns a string, \<^verbatim>\<open>pca\<close> returns an array of
  two handles, and the functions that select by sensor, index or collection type (the
  three change detections, \<^verbatim>\<open>landsatIndices\<close>, \<^verbatim>\<open>sentinel2Indices\<close>, the three loaders by
  path and row) return a handle on the values they recognise and nothing on the others.
  \<^verbatim>\<open>sentinel2Indices\<close> and \<^verbatim>\<open>cloudMask\<close> are covered for every value of the image: when it
  is not an object they raise a TypeError where they would have returned a handle.
  Nothing is said of \<^verbatim>\<open>landsatIndices\<close> on one of its seven index names in another
  letter case.
\<close>

theorem exported_functions_result_kind:
  assumes "reachable s" and "result_kind c = Some k"
  shows "outcome_kind (fst (run c s)) = k"
proof -
  have C: "COLOR s = COLOR_init" using assms(1) by (rule reachable_COLOR)
  show ?thesis
  proof (cases c)
    case (landsatIndices_call img sensor index)
    then show ?thesis
      using assms(2) landsatIndices_result_kind [of img sensor index k s]
      by (simp add: outcome_kind_def)
  next
    case (sentinel2Indices_call image_arg index)
    then show ?thesis using assms(2) sentinel2Indices_kind [of image_arg index s] by simp
  next
    case (cloudMask_call image_arg)
    then show ?thesis using assms(2) cloudMask_kind [of image_arg s] by simp
  qed (use assms(2) in \<open>auto simp: C color_kind outcome_kind_def st_defs pca_def
         collection_types_def known_sensors_def Let_def split_beta
         split: option.splits js.splits if_splits\<close>)
qed

theorem exported_functions_result_kind_witness:
  "reachable init_state \<and>
   result_kind (simpleNDVIChangeDetection_call (Ext ''img_2014'') (Ext ''img_2015'')
                  ''L8'' (N 0.5)) = Some Handle \<and>
   outcome_kind (fst (run (simpleNDVIChangeDetection_call (Ext ''img_2014'') (Ext ''img_2015'')
                        ''L8'' (N 0.5)) init_state)) = Handle \<and>
   result_kind (cloudMask_call Undef) = Some TypeError \<and>
   outcome_kind (fst (run (cloudMask_call Undef) init_state)) = TypeError"
proof -
  have k1: "result_kind (simpleNDVIChangeDetection_call (Ext ''img_2014'') (Ext ''img_2015'')
                  ''L8'' (N 0.5)) = Some Handle"
    by (simp add: known_sensors_def)
  have k2: "result_kind (cloudMask_call Undef) = Some TypeError" by simp
  show ?thesis
    using exported_functions_result_kind [OF reachable_init k1]
          exported_functions_result_kind [OF reachable_init k2] reachable_init k1 k2
    by blast
qed

section \<open>No state of its own\<close>

text \<open>
  Claim C6. The library keeps no state: no call of an exported function changes the
  table \<^verbatim>\<open>COLOR\<close>; the value a call returns is the same in any two states the program
  reaches, so it depends on the arguments alone and not on the console, the map layers
  or the export tasks; and a call evaluated twice in a row returns equal values. Handles
  are values: a call builds a new node over the handle it is given and leaves it as it was.
\<close>

theorem library_keeps_no_state:
  "COLOR (snd (run c s)) = COLOR s \<and>
   (reachable s \<longrightarrow> reachable s' \<longrightarrow> fst (run c s) = fst (run c s')) \<and>
   fst (run c (snd (run c s))) = fst (run c s)"
proof -
  have a: "COLOR (snd (run c s)) = COLOR s" by (rule run_COLOR)
  have b: "reachable s \<Longrightarrow> reachable s' \<Longrightarrow> fst (run c s) = fst (run c s')"
    by (rule run_fst) (simp add: reachable_COLOR)
  have d: "fst (run c (snd (run c s))) = fst (run c s)"
    by (rule run_fst) (rule run_COLOR)
  from a b d show ?thesis by blast
qed

theorem library_keeps_no_state_witness:
  "reachable init_state \<and>
   reachable (snd (run (plotRGB_call (H (Ext ''img'')) Undef) init_state)) \<and>
   fst (run (color_call ''water'') init_state)
     = fst (run (color_call ''water'') (snd (run (plotRGB_call (H (Ext ''img'')) Undef) init_state)))"
proof -
  have r0: "reachable init_state" by (rule reachable_init)
  have r1: "reachable (snd (run (plotRGB_call (H (Ext ''img'')) Undef) init_state))"
    using r0 by (rule reachable_run)
  show ?thesis
    using library_keeps_no_state [of "color_call ''water''" init_state
            "snd (run (plotRGB_call (H (Ext ''img'')) Undef) init_state)"] r0 r1
    by blast
qed

end
